theory Spec2Isabelle
  imports Complex_Main
begin

section \<open>Values, tables and errors\<close>

text \<open>
  The program \<^verbatim>\<open>src/fasttrips/Transfer.py\<close> keeps every transfer link in one
  pandas DataFrame. A float64 value is modelled as a rational number or one of the
  three special IEEE values; arithmetic on finite values is exact (rounding and
  overflow to infinity are not modelled), comparisons follow IEEE: every ordered
  comparison with NaN is false. The pandas missing value (NaN, None) is \<open>Flt NaN\<close>.
  A frame lists the names of its columns in their order; a row gives the cell of
  every column by name, so the names of a frame's columns are unique. A cell of
  type timedelta arises in the column \<^verbatim>\<open>time\<close> only, which the constructor adds
  last; arithmetic on it is not modelled.
\<close>

datatype f64 = Fin rat | PInf | NInf | NaN

datatype cell = Str string | Flt f64 | TDelta int

type_synonym colname = string

type_synonym row = "colname \<Rightarrow> cell"

record dataframe =
  columns :: "colname list"
  index_names :: "colname list"
  rows :: "row list"

datatype error =
    NetworkInputError string string
  | AssertionError
  | KeyError colname
  | ValueError
  | TypeError
  | OverflowError
  | MergeError
  | IOError string

datatype log_level = DEBUG | INFO | WARNING | FATAL

datatype log_item = Text string | Frame "row list" | DTypes "colname list" | Number nat

type_synonym log_entry = "log_level \<times> log_item list"

definition bindE :: "error + 'a \<Rightarrow> ('a \<Rightarrow> error + 'b) \<Rightarrow> error + 'b" where
  "bindE m f = (case m of Inl e \<Rightarrow> Inl e | Inr x \<Rightarrow> f x)"

fun mapE :: "('a \<Rightarrow> error + 'b) \<Rightarrow> 'a list \<Rightarrow> error + 'b list" where
  "mapE f [] = Inr []"
| "mapE f (x # xs) =
     (case f x of
        Inl e \<Rightarrow> Inl e
      | Inr y \<Rightarrow> (case mapE f xs of Inl e \<Rightarrow> Inl e | Inr ys \<Rightarrow> Inr (y # ys)))"

subsection \<open>float64 operations the program uses\<close>

fun f64_lt :: "f64 \<Rightarrow> f64 \<Rightarrow> bool" where
  "f64_lt NaN _ = False"
| "f64_lt _ NaN = False"
| "f64_lt (Fin x) (Fin y) = (x < y)"
| "f64_lt (Fin _) PInf = True"
| "f64_lt (Fin _) NInf = False"
| "f64_lt NInf NInf = False"
| "f64_lt NInf _ = True"
| "f64_lt PInf _ = False"

definition f64_gt :: "f64 \<Rightarrow> f64 \<Rightarrow> bool" where
  "f64_gt a b = f64_lt b a"

fun f64_ge :: "f64 \<Rightarrow> f64 \<Rightarrow> bool" where
  "f64_ge NaN _ = False"
| "f64_ge _ NaN = False"
| "f64_ge a b = (\<not> f64_lt a b)"

definition f64_le :: "f64 \<Rightarrow> f64 \<Rightarrow> bool" where
  "f64_le a b = f64_ge b a"

text \<open>Multiplication and division by a positive finite constant (60.0 and 3.0).\<close>

fun f64_mul_pos :: "f64 \<Rightarrow> rat \<Rightarrow> f64" where
  "f64_mul_pos (Fin x) k = Fin (x * k)"
| "f64_mul_pos v k = v"

fun f64_div_pos :: "f64 \<Rightarrow> rat \<Rightarrow> f64" where
  "f64_div_pos (Fin x) k = Fin (x / k)"
| "f64_div_pos v k = v"

definition as_float :: "cell \<Rightarrow> error + f64" where
  "as_float c = (case c of Flt x \<Rightarrow> Inr x | Str _ \<Rightarrow> Inl TypeError | TDelta _ \<Rightarrow> Inl TypeError)"

abbreviation NA :: cell where
  "NA \<equiv> Flt NaN"

abbreviation num :: "rat \<Rightarrow> cell" where
  "num x \<equiv> Flt (Fin x)"

definition isna :: "cell \<Rightarrow> bool" where
  "isna c = (c = NA)"

subsection \<open>datetime.timedelta(minutes=x)\<close>

text \<open>
  Python's timedelta keeps whole microseconds, rounds half to even, and raises
  ValueError for NaN and OverflowError for an infinity or a magnitude above
  999999999 days. A timedelta is modelled by its number of microseconds.
\<close>

definition round_half_even :: "rat \<Rightarrow> int" where
  "round_half_even x =
     (let f = \<lfloor>x\<rfloor>; d = x - of_int f
      in if d < 1 / 2 then f else if 1 / 2 < d then f + 1 else if even f then f else f + 1)"

definition timedelta_minutes :: "f64 \<Rightarrow> error + int" where
  "timedelta_minutes x =
     (case x of
        NaN \<Rightarrow> Inl ValueError
      | PInf \<Rightarrow> Inl OverflowError
      | NInf \<Rightarrow> Inl OverflowError
      | Fin m \<Rightarrow>
          (let us = round_half_even (m * 60000000); days = us div 86400000000
           in if - 999999999 \<le> days \<and> days \<le> 999999999 then Inr us else Inl OverflowError))"

subsection \<open>Decimal rendering of a count (the \<^verbatim>\<open>%d\<close> of the error message)\<close>

function str_nat :: "nat \<Rightarrow> string" where
  "str_nat n =
     (if n < 10 then [''0123456789'' ! n] else str_nat (n div 10) @ [''0123456789'' ! (n mod 10)])"
  by pat_completeness auto
termination
  by (relation "measure id") auto

declare str_nat.simps [simp del]

section \<open>The pandas operations the program calls\<close>

definition mk_row :: "(colname \<times> cell) list \<Rightarrow> row" where
  "mk_row kvs = (\<lambda>c. case map_of kvs c of Some v \<Rightarrow> v | None \<Rightarrow> NA)"

definition first_seen :: "'a list \<Rightarrow> 'a list" where
  "first_seen xs = rev (remdups (rev xs))"

definition add_column :: "colname \<Rightarrow> colname list \<Rightarrow> colname list" where
  "add_column c cs = (if c \<in> set cs then cs else cs @ [c])"

text \<open>\<^verbatim>\<open>pandas.DataFrame(data=list_of_dicts)\<close>: the columns are the keys in the order
  they are first seen, a key a dict lacks is a missing value.\<close>

definition DataFrame_from_dicts :: "(colname \<times> cell) list list \<Rightarrow> dataframe" where
  "DataFrame_from_dicts ds =
     \<lparr>columns = first_seen (concat (map (map fst) ds)), index_names = [], rows = map mk_row ds\<rparr>"

text \<open>\<^verbatim>\<open>pandas.DataFrame(columns=cs)\<close>: no rows.\<close>

definition DataFrame_empty :: "colname list \<Rightarrow> dataframe" where
  "DataFrame_empty cs = \<lparr>columns = cs, index_names = [], rows = []\<rparr>"

text \<open>\<^verbatim>\<open>df.replace(to_replace={c:{old:new}}, inplace=True)\<close>; a column the frame
  lacks is skipped.\<close>

definition replace_in_column :: "colname \<Rightarrow> cell \<Rightarrow> cell \<Rightarrow> dataframe \<Rightarrow> dataframe" where
  "replace_in_column c old new df =
     (if c \<in> set (columns df)
      then df\<lparr>rows := map (\<lambda>r. if r c = old then r(c := new) else r) (rows df)\<rparr>
      else df)"

text \<open>\<^verbatim>\<open>df[c] = df[c].astype(float)\<close>. The parameter \<open>pf\<close> is Python's
  \<^verbatim>\<open>float(str)\<close>: \<open>None\<close> where it raises ValueError.\<close>

definition to_float :: "(string \<Rightarrow> f64 option) \<Rightarrow> cell \<Rightarrow> error + cell" where
  "to_float pf c =
     (case c of
        Str s \<Rightarrow> (case pf s of Some x \<Rightarrow> Inr (Flt x) | None \<Rightarrow> Inl ValueError)
      | Flt x \<Rightarrow> Inr (Flt x)
      | TDelta _ \<Rightarrow> Inl TypeError)"

definition astype_float :: "(string \<Rightarrow> f64 option) \<Rightarrow> colname \<Rightarrow> dataframe \<Rightarrow> error + dataframe" where
  "astype_float pf c df =
     (if c \<in> set (columns df)
      then bindE (mapE (\<lambda>r. bindE (to_float pf (r c)) (\<lambda>v. Inr (r(c := v)))) (rows df))
             (\<lambda>rs. Inr (df\<lparr>rows := rs\<rparr>))
      else Inl (KeyError c))"

text \<open>\<^verbatim>\<open>df.loc[df[t] != k, c] = v\<close>.\<close>

definition loc_assign_ne :: "colname \<Rightarrow> rat \<Rightarrow> colname \<Rightarrow> cell \<Rightarrow> dataframe \<Rightarrow> error + dataframe" where
  "loc_assign_ne t k c v df =
     (if t \<in> set (columns df)
      then Inr (df\<lparr>columns := add_column c (columns df),
                  rows := map (\<lambda>r. if r t \<noteq> num k then r(c := v) else r) (rows df)\<rparr>)
      else Inl (KeyError t))"

text \<open>\<^verbatim>\<open>pandas.merge(left, right, how='right', on=keys)\<close>: one output row for every
  pair of a right row and a left row with the same key, in the order of the right
  rows; a right row no left row matches is kept once, with missing values in the
  left columns. A column other than a key that both frames have is suffixed
  \<^verbatim>\<open>_x\<close> on the left and \<^verbatim>\<open>_y\<close> on the right; a result with two columns of one
  name is refused (MergeError), and so is a key that one of the frames lacks
  (KeyError).\<close>

definition same_key :: "colname list \<Rightarrow> row \<Rightarrow> row \<Rightarrow> bool" where
  "same_key keys lr rr = list_all (\<lambda>k. lr k = rr k) keys"

definition matching_rows :: "colname list \<Rightarrow> row list \<Rightarrow> row \<Rightarrow> row list" where
  "matching_rows keys ls rr = filter (\<lambda>lr. same_key keys lr rr) ls"

definition merge_overlap :: "dataframe \<Rightarrow> dataframe \<Rightarrow> colname list \<Rightarrow> colname list" where
  "merge_overlap left right keys =
     filter (\<lambda>c. c \<notin> set keys \<and> c \<in> set (columns right)) (columns left)"

definition suffixed :: "colname list \<Rightarrow> string \<Rightarrow> colname \<Rightarrow> colname" where
  "suffixed overlap sfx c = (if c \<in> set overlap then c @ sfx else c)"

definition right_only_columns :: "dataframe \<Rightarrow> colname list \<Rightarrow> colname list" where
  "right_only_columns right keys = filter (\<lambda>c. c \<notin> set keys) (columns right)"

definition merged_columns :: "dataframe \<Rightarrow> dataframe \<Rightarrow> colname list \<Rightarrow> colname list" where
  "merged_columns left right keys =
     map (suffixed (merge_overlap left right keys) ''_x'') (columns left)
     @ map (suffixed (merge_overlap left right keys) ''_y'') (right_only_columns right keys)"

definition join_row :: "dataframe \<Rightarrow> dataframe \<Rightarrow> colname list \<Rightarrow> row \<Rightarrow> row \<Rightarrow> row" where
  "join_row left right keys lr rr =
     mk_row
       (map (\<lambda>c. (suffixed (merge_overlap left right keys) ''_x'' c,
                    if c \<in> set keys then rr c else lr c)) (columns left)
        @ map (\<lambda>c. (suffixed (merge_overlap left right keys) ''_y'' c, rr c))
            (right_only_columns right keys))"

definition joined_rows :: "dataframe \<Rightarrow> dataframe \<Rightarrow> colname list \<Rightarrow> row \<Rightarrow> row list" where
  "joined_rows left right keys rr =
     (case matching_rows keys (rows left) rr of
        [] \<Rightarrow> [join_row left right keys (\<lambda>_. NA) rr]
      | m # ms \<Rightarrow> map (\<lambda>lr. join_row left right keys lr rr) (m # ms))"

definition merge_right :: "dataframe \<Rightarrow> dataframe \<Rightarrow> colname list \<Rightarrow> error + dataframe" where
  "merge_right left right keys =
     (case find (\<lambda>k. \<not> (k \<in> set (columns left) \<and> k \<in> set (columns right))) keys of
        Some k \<Rightarrow> Inl (KeyError k)
      | None \<Rightarrow>
          if distinct (merged_columns left right keys)
          then Inr \<lparr>columns = merged_columns left right keys, index_names = [],
                    rows = concat (map (joined_rows left right keys) (rows right))\<rparr>
          else Inl MergeError)"

text \<open>\<^verbatim>\<open>df.fillna(value={c: v, ...}, inplace=True)\<close>; a column the frame lacks is
  skipped.\<close>

definition fillna_column :: "colname \<Rightarrow> cell \<Rightarrow> dataframe \<Rightarrow> dataframe" where
  "fillna_column c v df =
     (if c \<in> set (columns df)
      then df\<lparr>rows := map (\<lambda>r. if isna (r c) then r(c := v) else r) (rows df)\<rparr>
      else df)"

text \<open>\<^verbatim>\<open>df[c] = v\<close> for a scalar \<open>v\<close>.\<close>

definition assign_const :: "colname \<Rightarrow> cell \<Rightarrow> dataframe \<Rightarrow> dataframe" where
  "assign_const c v df =
     df\<lparr>columns := add_column c (columns df), rows := map (\<lambda>r. r(c := v)) (rows df)\<rparr>"

text \<open>\<^verbatim>\<open>df[dst] = f(df[src])\<close> for float arithmetic \<open>f\<close> on a column; a
  string cell makes the arithmetic raise TypeError.\<close>

definition assign_map :: "colname \<Rightarrow> colname \<Rightarrow> (f64 \<Rightarrow> f64) \<Rightarrow> dataframe \<Rightarrow> error + dataframe" where
  "assign_map dst src f df =
     (if src \<in> set (columns df)
      then bindE (mapE (\<lambda>r. bindE (as_float (r src)) (\<lambda>x. Inr (r(dst := Flt (f x))))) (rows df))
             (\<lambda>rs. Inr (df\<lparr>columns := add_column dst (columns df), rows := rs\<rparr>))
      else Inl (KeyError src))"

text \<open>\<^verbatim>\<open>df.loc[df[c] > k]\<close>: the rows whose value in \<open>c\<close> exceeds \<open>k\<close>.\<close>

fun filterE :: "('a \<Rightarrow> error + bool) \<Rightarrow> 'a list \<Rightarrow> error + 'a list" where
  "filterE p [] = Inr []"
| "filterE p (x # xs) =
     (case p x of
        Inl e \<Rightarrow> Inl e
      | Inr b \<Rightarrow> (case filterE p xs of Inl e \<Rightarrow> Inl e | Inr ys \<Rightarrow> Inr (if b then x # ys else ys)))"

definition loc_gt :: "colname \<Rightarrow> rat \<Rightarrow> dataframe \<Rightarrow> error + row list" where
  "loc_gt c k df =
     (if c \<in> set (columns df)
      then filterE (\<lambda>r. bindE (as_float (r c)) (\<lambda>x. Inr (f64_gt x (Fin k)))) (rows df)
      else Inl (KeyError c))"

text \<open>\<^verbatim>\<open>df.loc[df[a] < df[b], a] = df[b]\<close>.\<close>

definition floor_column :: "colname \<Rightarrow> colname \<Rightarrow> dataframe \<Rightarrow> error + dataframe" where
  "floor_column a b df =
     (if a \<in> set (columns df)
      then if b \<in> set (columns df)
        then bindE (mapE (\<lambda>r. bindE (as_float (r a)) (\<lambda>x. bindE (as_float (r b))
                            (\<lambda>y. Inr (if f64_lt x y then r(a := r b) else r)))) (rows df))
               (\<lambda>rs. Inr (df\<lparr>rows := rs\<rparr>))
        else Inl (KeyError b)
      else Inl (KeyError a))"

text \<open>\<^verbatim>\<open>df[dst] = df[src].map(lambda x: datetime.timedelta(minutes=x))\<close>.\<close>

definition assign_timedelta :: "colname \<Rightarrow> colname \<Rightarrow> dataframe \<Rightarrow> error + dataframe" where
  "assign_timedelta dst src df =
     (if src \<in> set (columns df)
      then bindE (mapE (\<lambda>r. bindE (as_float (r src)) (\<lambda>x. bindE (timedelta_minutes x)
                          (\<lambda>us. Inr (r(dst := TDelta us))))) (rows df))
             (\<lambda>rs. Inr (df\<lparr>columns := add_column dst (columns df), rows := rs\<rparr>))
      else Inl (KeyError src))"

text \<open>\<^verbatim>\<open>df.loc[df[c] != k]\<close>: a new frame with the rows whose value in \<open>c\<close> is not
  \<open>k\<close> (\<^verbatim>\<open>!=\<close> is true for a string and for a missing value).\<close>

definition loc_ne :: "colname \<Rightarrow> rat \<Rightarrow> dataframe \<Rightarrow> error + dataframe" where
  "loc_ne c k df =
     (if c \<in> set (columns df)
      then Inr (df\<lparr>rows := filter (\<lambda>r. r c \<noteq> num k) (rows df)\<rparr>)
      else Inl (KeyError c))"

text \<open>\<^verbatim>\<open>df.drop(cs, axis=1, inplace=True)\<close>: KeyError for a label the frame lacks.\<close>

definition drop_columns :: "colname list \<Rightarrow> dataframe \<Rightarrow> error + dataframe" where
  "drop_columns cs df =
     (case find (\<lambda>c. c \<notin> set (columns df)) cs of
        Some c \<Rightarrow> Inl (KeyError c)
      | None \<Rightarrow> Inr (df\<lparr>columns := filter (\<lambda>c. c \<notin> set cs) (columns df)\<rparr>))"

text \<open>\<^verbatim>\<open>df[dst] = df[src]\<close>.\<close>

definition copy_column :: "colname \<Rightarrow> colname \<Rightarrow> dataframe \<Rightarrow> error + dataframe" where
  "copy_column dst src df =
     (if src \<in> set (columns df)
      then Inr (df\<lparr>columns := add_column dst (columns df),
                  rows := map (\<lambda>r. r(dst := r src)) (rows df)\<rparr>)
      else Inl (KeyError src))"

text \<open>\<^verbatim>\<open>df.set_index(keys, inplace=True)\<close>: the key columns become the index.\<close>

definition set_index :: "colname list \<Rightarrow> dataframe \<Rightarrow> error + dataframe" where
  "set_index keys df =
     (case find (\<lambda>c. c \<notin> set (columns df)) keys of
        Some c \<Rightarrow> Inl (KeyError c)
      | None \<Rightarrow> Inr (df\<lparr>columns := filter (\<lambda>c. c \<notin> set keys) (columns df),
                        index_names := keys\<rparr>))"

text \<open>\<^verbatim>\<open>df.stack().reset_index()\<close>: one row for every row and column whose cell is
  not missing, holding the index values, the column's name (under the label
  \<^verbatim>\<open>level_n\<close>, \<open>n\<close> the number of index levels) and the cell (under the label 0,
  written \<open>''0''\<close> here).\<close>

definition stacked_row :: "colname list \<Rightarrow> row \<Rightarrow> colname \<Rightarrow> row" where
  "stacked_row idx r c =
     mk_row (map (\<lambda>k. (k, r k)) idx @ [(''level_'' @ str_nat (length idx), Str c), (''0'', r c)])"

definition stack_reset_index :: "dataframe \<Rightarrow> dataframe" where
  "stack_reset_index df =
     \<lparr>columns = index_names df @ [''level_'' @ str_nat (length (index_names df)), ''0''],
      index_names = [],
      rows = concat (map (\<lambda>r. map (stacked_row (index_names df) r)
                                (filter (\<lambda>c. \<not> isna (r c)) (columns df))) (rows df))\<rparr>"

text \<open>\<^verbatim>\<open>df.rename(columns={old: new, ...}, inplace=True)\<close>.\<close>

definition renamed :: "(colname \<times> colname) list \<Rightarrow> colname \<Rightarrow> colname" where
  "renamed m c = (case map_of m c of Some n \<Rightarrow> n | None \<Rightarrow> c)"

definition rename_columns :: "(colname \<times> colname) list \<Rightarrow> dataframe \<Rightarrow> dataframe" where
  "rename_columns m df =
     df\<lparr>columns := map (renamed m) (columns df),
        rows := map (\<lambda>r. mk_row (map (\<lambda>c. (renamed m c, r c)) (columns df))) (rows df)\<rparr>"

text \<open>\<^verbatim>\<open>df.to_csv(path, sep=" ", index=False)\<close>: a header line and one line for
  every row. The parameter \<open>render\<close> is the text pandas writes for a cell.\<close>

definition csv_line :: "string list \<Rightarrow> string" where
  "csv_line vals = concat (case vals of [] \<Rightarrow> [] | v # vs \<Rightarrow> v # map (\<lambda>u. '' '' @ u) vs) @ ''\<newline>''"

definition to_csv :: "(cell \<Rightarrow> string) \<Rightarrow> dataframe \<Rightarrow> string" where
  "to_csv render df =
     csv_line (columns df) @ concat (map (\<lambda>r. csv_line (map (\<lambda>c. render (r c)) (columns df))) (rows df))"

section \<open>The Transfer class\<close>

abbreviation (input) INPUT_TRANSFERS_FILE :: string where
  "INPUT_TRANSFERS_FILE \<equiv> ''transfers_ft.txt''"
abbreviation (input) TRANSFERS_COLUMN_FROM_STOP :: colname where
  "TRANSFERS_COLUMN_FROM_STOP \<equiv> ''from_stop_id''"
abbreviation (input) TRANSFERS_COLUMN_TO_STOP :: colname where
  "TRANSFERS_COLUMN_TO_STOP \<equiv> ''to_stop_id''"
abbreviation (input) TRANSFERS_COLUMN_TRANSFER_TYPE :: colname where
  "TRANSFERS_COLUMN_TRANSFER_TYPE \<equiv> ''transfer_type''"
abbreviation (input) TRANSFERS_COLUMN_MIN_TRANSFER_TIME :: colname where
  "TRANSFERS_COLUMN_MIN_TRANSFER_TIME \<equiv> ''min_transfer_time''"
abbreviation (input) TRANSFERS_COLUMN_DISTANCE :: colname where
  "TRANSFERS_COLUMN_DISTANCE \<equiv> ''dist''"
abbreviation (input) TRANSFERS_COLUMN_FROM_ROUTE :: colname where
  "TRANSFERS_COLUMN_FROM_ROUTE \<equiv> ''from_route_id''"
abbreviation (input) TRANSFERS_COLUMN_TO_ROUTE :: colname where
  "TRANSFERS_COLUMN_TO_ROUTE \<equiv> ''to_route_id''"
abbreviation (input) TRANSFERS_COLUMN_SCHEDULE_PRECEDENCE :: colname where
  "TRANSFERS_COLUMN_SCHEDULE_PRECEDENCE \<equiv> ''schedule_precedence''"
abbreviation (input) TRANSFERS_COLUMN_FROM_STOP_NUM :: colname where
  "TRANSFERS_COLUMN_FROM_STOP_NUM \<equiv> ''from_stop_id_num''"
abbreviation (input) TRANSFERS_COLUMN_TO_STOP_NUM :: colname where
  "TRANSFERS_COLUMN_TO_STOP_NUM \<equiv> ''to_stop_id_num''"
abbreviation (input) TRANSFERS_COLUMN_MIN_TRANSFER_TIME_MIN :: colname where
  "TRANSFERS_COLUMN_MIN_TRANSFER_TIME_MIN \<equiv> ''min_transfer_time_min''"
abbreviation (input) WALK_SPEED_MILES_PER_HOUR :: rat where
  "WALK_SPEED_MILES_PER_HOUR \<equiv> 3"
abbreviation (input) TRANSFERS_COLUMN_TIME :: colname where
  "TRANSFERS_COLUMN_TIME \<equiv> ''time''"
abbreviation (input) TRANSFERS_COLUMN_TIME_MIN :: colname where
  "TRANSFERS_COLUMN_TIME_MIN \<equiv> ''time_min''"
abbreviation (input) TRANSFERS_COLUMN_PENALTY :: colname where
  "TRANSFERS_COLUMN_PENALTY \<equiv> ''transfer_penalty''"
abbreviation (input) OUTPUT_TRANSFERS_FILE :: string where
  "OUTPUT_TRANSFERS_FILE \<equiv> ''ft_intermediate_transfers.txt''"

subsection \<open>The objects around it\<close>

text \<open>
  A transfer of the transitfeed schedule is modelled by its \<^verbatim>\<open>__dict__\<close>;
  \<open>FIELD_NAMES\<close> is \<^verbatim>\<open>transitfeed.Transfer._FIELD_NAMES\<close>. The world holds what
  \<^verbatim>\<open>pandas.read_csv\<close> returns for a path, the DataFrame objects by address (so
  that a copy and the frame it was copied from are told apart), the text files
  written, and the log.
\<close>

type_synonym gtfs_transfer = "(string \<times> cell) list"

definition FIELD_NAMES :: "string list" where
  "FIELD_NAMES = [''from_stop_id'', ''to_stop_id'', ''transfer_type'', ''min_transfer_time'']"

record world =
  csv_files :: "string \<rightharpoonup> dataframe"
  heap :: "nat \<Rightarrow> dataframe"
  next_addr :: nat
  files :: "string \<rightharpoonup> string"
  log :: "log_entry list"

record Transfer =
  output_dir :: string
  transfers_df :: nat

definition alloc :: "dataframe \<Rightarrow> world \<Rightarrow> nat \<times> world" where
  "alloc df w = (next_addr w, w\<lparr>heap := (heap w)(next_addr w := df), next_addr := Suc (next_addr w)\<rparr>)"

definition inplace :: "nat \<Rightarrow> (dataframe \<Rightarrow> error + dataframe) \<Rightarrow> world \<Rightarrow> error + world" where
  "inplace a f w = bindE (f (heap w a)) (\<lambda>d. Inr (w\<lparr>heap := (heap w)(a := d)\<rparr>))"

definition read_csv :: "world \<Rightarrow> string \<Rightarrow> error + dataframe" where
  "read_csv w path = (case csv_files w path of None \<Rightarrow> Inl (IOError path) | Some df \<Rightarrow> Inr df)"

definition os_path_join :: "string \<Rightarrow> string \<Rightarrow> string" where
  "os_path_join a b =
     (if b \<noteq> [] \<and> hd b = CHR ''/'' then b
      else if a = [] \<or> last a = CHR ''/'' then a @ b
      else a @ ''/'' @ b)"

subsection \<open>The constructor, lines 92 to 192\<close>

definition transfer_dict_of :: "gtfs_transfer \<Rightarrow> (colname \<times> cell) list" where
  "transfer_dict_of g =
     concat (map (\<lambda>f. case map_of g f of Some v \<Rightarrow> [(f, v)] | None \<Rightarrow> []) FIELD_NAMES)"

text \<open>Lines 99 to 127: the relation of the base feed.\<close>

definition base_relation :: "(string \<Rightarrow> f64 option) \<Rightarrow> gtfs_transfer list \<Rightarrow> error + dataframe" where
  "base_relation pf transfer_list =
     (let transfer_dicts = map transfer_dict_of transfer_list
      in if length transfer_dicts > 0
         then bindE (astype_float pf TRANSFERS_COLUMN_MIN_TRANSFER_TIME
                       (replace_in_column TRANSFERS_COLUMN_MIN_TRANSFER_TIME (Str []) (Str ''0'')
                          (DataFrame_from_dicts transfer_dicts)))
                (loc_assign_ne TRANSFERS_COLUMN_TRANSFER_TYPE 2
                   TRANSFERS_COLUMN_MIN_TRANSFER_TIME (num 0))
         else Inr (DataFrame_empty [TRANSFERS_COLUMN_FROM_STOP, TRANSFERS_COLUMN_FROM_STOP_NUM,
                                     TRANSFERS_COLUMN_TO_STOP, TRANSFERS_COLUMN_TO_STOP_NUM,
                                     TRANSFERS_COLUMN_TIME, TRANSFERS_COLUMN_TIME_MIN]))"

text \<open>Lines 132 to 139: six bare \<^verbatim>\<open>assert\<close> statements.\<close>

definition required_columns :: "colname list" where
  "required_columns =
     [TRANSFERS_COLUMN_FROM_STOP, TRANSFERS_COLUMN_TO_STOP, TRANSFERS_COLUMN_DISTANCE,
      TRANSFERS_COLUMN_FROM_ROUTE, TRANSFERS_COLUMN_TO_ROUTE, TRANSFERS_COLUMN_SCHEDULE_PRECEDENCE]"

definition verify_required_columns :: "dataframe \<Rightarrow> error + unit" where
  "verify_required_columns transfers_ft_df =
     (if list_all (\<lambda>c. c \<in> set (columns transfers_ft_df)) required_columns
      then Inr () else Inl AssertionError)"

text \<open>Lines 141 to 153: the join and the defaults.\<close>

definition join_supplemental :: "dataframe \<Rightarrow> dataframe \<Rightarrow> error + dataframe" where
  "join_supplemental df transfers_ft_df =
     (if length (rows transfers_ft_df) > 0
      then bindE (merge_right df transfers_ft_df [TRANSFERS_COLUMN_FROM_STOP, TRANSFERS_COLUMN_TO_STOP])
             (\<lambda>m. Inr (fillna_column TRANSFERS_COLUMN_TRANSFER_TYPE (num 0)
                          (fillna_column TRANSFERS_COLUMN_MIN_TRANSFER_TIME (num 0) m)))
      else Inr df)"

text \<open>Lines 99 to 156: everything up to the penalty column.\<close>

definition joined_relation ::
  "(string \<Rightarrow> f64 option) \<Rightarrow> gtfs_transfer list \<Rightarrow> error + dataframe \<Rightarrow> error + dataframe" where
  "joined_relation pf transfer_list ft_read =
     bindE (base_relation pf transfer_list) (\<lambda>df.
     bindE ft_read (\<lambda>transfers_ft_df.
     bindE (verify_required_columns transfers_ft_df) (\<lambda>_.
     bindE (join_supplemental df transfers_ft_df) (\<lambda>df2.
     Inr (assign_const TRANSFERS_COLUMN_PENALTY (num 1) df2)))))"

text \<open>Lines 162 to 186: the derived times, the sanity check, the floor and the
  timedelta column. The result comes with the lines logged at level fatal.\<close>

definition error_msg :: "nat \<Rightarrow> nat \<Rightarrow> string" where
  "error_msg n m =
     ''Found '' @ str_nat n @ '' excessively long transfer links out of '' @ str_nat m
     @ '' total transfer links. Expected distances are in miles. Unit problem?''"

definition walk_time :: "f64 \<Rightarrow> f64" where
  "walk_time d = f64_div_pos (f64_mul_pos d 60) WALK_SPEED_MILES_PER_HOUR"

definition derived_times :: "dataframe \<Rightarrow> error + dataframe" where
  "derived_times df =
     bindE (assign_map TRANSFERS_COLUMN_MIN_TRANSFER_TIME_MIN TRANSFERS_COLUMN_MIN_TRANSFER_TIME
              (\<lambda>x. f64_div_pos x 60) df)
       (assign_map TRANSFERS_COLUMN_TIME_MIN TRANSFERS_COLUMN_DISTANCE walk_time)"

definition floored_times :: "dataframe \<Rightarrow> error + dataframe" where
  "floored_times df =
     bindE (floor_column TRANSFERS_COLUMN_TIME_MIN TRANSFERS_COLUMN_MIN_TRANSFER_TIME_MIN df)
       (assign_timedelta TRANSFERS_COLUMN_TIME TRANSFERS_COLUMN_TIME_MIN)"

definition enrich :: "dataframe \<Rightarrow> (error + dataframe) \<times> log_entry list" where
  "enrich df =
     (if length (rows df) > 0
      then (case derived_times df of
              Inl e \<Rightarrow> (Inl e, [])
            | Inr df2 \<Rightarrow>
                (case loc_gt TRANSFERS_COLUMN_TIME_MIN 780 df2 of
                   Inl e \<Rightarrow> (Inl e, [])
                 | Inr too_long_transfers \<Rightarrow>
                     if length too_long_transfers > 0
                     then (Inl (NetworkInputError INPUT_TRANSFERS_FILE
                                  (error_msg (length too_long_transfers) (length (rows df2)))),
                           [(FATAL, [Text (error_msg (length too_long_transfers) (length (rows df2)))]),
                            (FATAL, [Text ''\<newline>'', Frame (take 5 too_long_transfers), Text ''\<newline>''])])
                     else (floored_times df2, [])))
      else (Inr df, []))"

definition Transfer_init ::
  "(string \<Rightarrow> f64 option) \<Rightarrow> string \<Rightarrow> string \<Rightarrow> gtfs_transfer list \<Rightarrow> world
     \<Rightarrow> (error + Transfer) \<times> world" where
  "Transfer_init pf input_dir out_dir transfer_list w =
     (case joined_relation pf transfer_list (read_csv w (os_path_join input_dir INPUT_TRANSFERS_FILE)) of
        Inl e \<Rightarrow> (Inl e, w)
      | Inr df \<Rightarrow>
          (let w1 = w\<lparr>log := log w @
                      [(DEBUG, [Text ''=========== TRANSFERS ===========\<newline>'', Frame (take 5 (rows df))]),
                       (DEBUG, [Text ''\<newline>'', DTypes (columns df)])]\<rparr>
           in case enrich df of
                (Inl e, fatal) \<Rightarrow> (Inl e, w1\<lparr>log := log w1 @ fatal\<rparr>)
              | (Inr df', fatal) \<Rightarrow>
                  (case alloc df'
                          (w1\<lparr>log := log w1 @ fatal @
                                [(DEBUG, [Text ''Final\<newline>'', Frame (rows df')]),
                                 (DEBUG, [Text ''\<newline>'', DTypes (columns df')]),
                                 (INFO, [Text ''Read'', Number (length (rows df')), Text ''transfers'',
                                         Text ''from'', Text ''transfers.txt'', Text INPUT_TRANSFERS_FILE])]\<rparr>) of
                     (a, w2) \<Rightarrow> (Inr \<lparr>output_dir = out_dir, transfers_df = a\<rparr>, w2))))"

subsection \<open>write_transfers_for_extension, lines 231 to 265\<close>

definition write_transfers_for_extension :: "(cell \<Rightarrow> string) \<Rightarrow> Transfer \<Rightarrow> world \<Rightarrow> error + world" where
  "write_transfers_for_extension render self w =
     (case alloc (heap w (transfers_df self)) w of (a1, w1) \<Rightarrow>
      bindE (loc_ne TRANSFERS_COLUMN_TRANSFER_TYPE 3 (heap w1 a1)) (\<lambda>d2.
      case alloc d2 w1 of (a2, w2) \<Rightarrow>
      bindE (inplace a2 (drop_columns [TRANSFERS_COLUMN_TIME, TRANSFERS_COLUMN_FROM_STOP,
                                        TRANSFERS_COLUMN_TO_STOP, TRANSFERS_COLUMN_MIN_TRANSFER_TIME,
                                        TRANSFERS_COLUMN_SCHEDULE_PRECEDENCE,
                                        TRANSFERS_COLUMN_FROM_ROUTE, TRANSFERS_COLUMN_TO_ROUTE]) w2) (\<lambda>w3.
      bindE (inplace a2 (copy_column ''walk_time_min'' TRANSFERS_COLUMN_TIME_MIN) w3) (\<lambda>w4.
      bindE (inplace a2 (set_index [TRANSFERS_COLUMN_FROM_STOP_NUM, TRANSFERS_COLUMN_TO_STOP_NUM]) w4) (\<lambda>w5.
      case alloc (stack_reset_index (heap w5 a2)) w5 of (a3, w6) \<Rightarrow>
      bindE (inplace a3 (\<lambda>d. Inr (rename_columns [(''level_2'', ''attr_name''), (''0'', ''attr_value'')] d)) w6) (\<lambda>w7.
      Inr (w7\<lparr>files := (files w7)(os_path_join (output_dir self) OUTPUT_TRANSFERS_FILE
                                      \<mapsto> to_csv render (heap w7 a3)),
               log := log w7 @ [(DEBUG, [Text ''Wrote '',
                                          Text (os_path_join (output_dir self) OUTPUT_TRANSFERS_FILE)])]\<rparr>)))))))"

subsection \<open>add_numeric_stop_id, lines 194 to 212\<close>

text \<open>
  Modelled from the spec: \<^verbatim>\<open>Stop.add_numeric_stop_id\<close> lives in \<^verbatim>\<open>Stop.py\<close>, which is
  not among the sources. The specification says that every string id of the column
  is resolved against the stop registry, that an id the registry lacks produces a
  warning naming the column and is left without a numeric id, and that this is
  not fatal. The registry is the map \<open>stops\<close>.
\<close>

definition resolve_stop :: "(string \<rightharpoonup> nat) \<Rightarrow> cell \<Rightarrow> cell" where
  "resolve_stop stops c =
     (case c of
        Str s \<Rightarrow> (case stops s of Some n \<Rightarrow> num (of_nat n) | None \<Rightarrow> NA)
      | Flt _ \<Rightarrow> NA
      | TDelta _ \<Rightarrow> NA)"

definition Stop_add_numeric_stop_id ::
  "(string \<rightharpoonup> nat) \<Rightarrow> dataframe \<Rightarrow> colname \<Rightarrow> colname \<Rightarrow> bool \<Rightarrow> string
     \<Rightarrow> error + dataframe \<times> log_entry list" where
  "Stop_add_numeric_stop_id stops df id_colname numeric_newcolname warn warn_msg =
     (if id_colname \<in> set (columns df)
      then (let df' = df\<lparr>columns := add_column numeric_newcolname (columns df),
                         rows := map (\<lambda>r. r(numeric_newcolname := resolve_stop stops (r id_colname)))
                                   (rows df)\<rparr>;
                unresolved = filter (\<lambda>r. isna (r numeric_newcolname)) (rows df')
            in Inr (df', if warn \<and> unresolved \<noteq> []
                         then [(WARNING, [Text warn_msg, Frame unresolved])] else []))
      else Inl (KeyError id_colname))"

definition add_numeric_stop_id ::
  "(cell \<Rightarrow> string) \<Rightarrow> (string \<rightharpoonup> nat) \<Rightarrow> Transfer \<Rightarrow> world \<Rightarrow> error + Transfer \<times> world" where
  "add_numeric_stop_id render stops self w =
     (if length (rows (heap w (transfers_df self))) > 0
      then bindE (Stop_add_numeric_stop_id stops (heap w (transfers_df self))
                    TRANSFERS_COLUMN_FROM_STOP TRANSFERS_COLUMN_FROM_STOP_NUM True
                    ''Numeric stop id not found for transfer from_stop_id'') (\<lambda>(d1, l1).
           case alloc d1 (w\<lparr>log := log w @ l1\<rparr>) of (a1, w1) \<Rightarrow>
           bindE (Stop_add_numeric_stop_id stops (heap w1 (transfers_df (self\<lparr>transfers_df := a1\<rparr>)))
                    TRANSFERS_COLUMN_TO_STOP TRANSFERS_COLUMN_TO_STOP_NUM True
                    ''Numeric stop id not found for transfer to_stop_id'') (\<lambda>(d2, l2).
           case alloc d2 (w1\<lparr>log := log w1 @ l2\<rparr>) of (a2, w2) \<Rightarrow>
           bindE (write_transfers_for_extension render (self\<lparr>transfers_df := a2\<rparr>) w2)
             (\<lambda>w3. Inr (self\<lparr>transfers_df := a2\<rparr>, w3))))
      else Inr (self, w))"

subsection \<open>The export as a function of the relation\<close>

text \<open>The frame that \<open>write_transfers_for_extension\<close> hands to \<^verbatim>\<open>to_csv\<close>, lines 236 to
  261 without the object store. Lemma \<open>write_succeeds\<close> relates the two.\<close>

definition export_relation :: "dataframe \<Rightarrow> error + dataframe" where
  "export_relation df =
     bindE (loc_ne TRANSFERS_COLUMN_TRANSFER_TYPE 3 df) (\<lambda>d2.
     bindE (drop_columns [TRANSFERS_COLUMN_TIME, TRANSFERS_COLUMN_FROM_STOP,
                          TRANSFERS_COLUMN_TO_STOP, TRANSFERS_COLUMN_MIN_TRANSFER_TIME,
                          TRANSFERS_COLUMN_SCHEDULE_PRECEDENCE,
                          TRANSFERS_COLUMN_FROM_ROUTE, TRANSFERS_COLUMN_TO_ROUTE] d2) (\<lambda>d3.
     bindE (copy_column ''walk_time_min'' TRANSFERS_COLUMN_TIME_MIN d3) (\<lambda>d4.
     bindE (set_index [TRANSFERS_COLUMN_FROM_STOP_NUM, TRANSFERS_COLUMN_TO_STOP_NUM] d4) (\<lambda>d5.
     Inr (rename_columns [(''level_2'', ''attr_name''), (''0'', ''attr_value'')] (stack_reset_index d5))))))"

subsection \<open>Observations used in the statements\<close>

text \<open>The rows the sanity check of line 172 collects, the comparison of two float
  cells, a column as a list, the relation a finished constructor call left in the
  store, and the rows logged at one level.\<close>

definition too_long :: "row \<Rightarrow> bool" where
  "too_long r = (case r TRANSFERS_COLUMN_TIME_MIN of Flt t \<Rightarrow> f64_gt t (Fin 780) | Str _ \<Rightarrow> False | TDelta _ \<Rightarrow> False)"

definition cell_ge :: "cell \<Rightarrow> cell \<Rightarrow> bool" where
  "cell_ge a b = (case (a, b) of (Flt x, Flt y) \<Rightarrow> f64_ge x y | _ \<Rightarrow> False)"

definition cell_le :: "cell \<Rightarrow> cell \<Rightarrow> bool" where
  "cell_le a b = cell_ge b a"

definition logged_rows :: "log_level \<Rightarrow> log_entry list \<Rightarrow> row list" where
  "logged_rows lvl entries =
     concat (map (\<lambda>(l, items). if l = lvl
                   then concat (map (\<lambda>i. case i of Frame rs \<Rightarrow> rs | Text _ \<Rightarrow> [] | DTypes _ \<Rightarrow> [] | Number _ \<Rightarrow> []) items)
                   else []) entries)"

definition column_values :: "colname \<Rightarrow> dataframe \<Rightarrow> cell list" where
  "column_values c df = map (\<lambda>r. r c) (rows df)"

definition loaded_relation :: "(error + Transfer) \<times> world \<Rightarrow> error + dataframe" where
  "loaded_relation res = (case fst res of Inl e \<Rightarrow> Inl e | Inr t \<Rightarrow> Inr (heap (snd res) (transfers_df t)))"

text \<open>The values a row of the joined relation holds for the columns of the
  supplemental frame.\<close>

definition supplemental_part :: "dataframe \<Rightarrow> dataframe \<Rightarrow> colname list \<Rightarrow> row \<Rightarrow> cell list" where
  "supplemental_part left right keys jr =
     map (\<lambda>c. jr (if c \<in> set keys then c else suffixed (merge_overlap left right keys) ''_y'' c))
       (columns right)"

text \<open>A column the frame has and whose cells are all floats (a missing value is the
  float NaN): what float arithmetic on the column needs.\<close>

definition numeric_column :: "colname \<Rightarrow> dataframe \<Rightarrow> bool" where
  "numeric_column c df =
     (c \<in> set (columns df)
      \<and> list_all (\<lambda>r. case r c of Flt _ \<Rightarrow> True | Str _ \<Rightarrow> False | TDelta _ \<Rightarrow> False) (rows df))"



section \<open>Example data\<close>

text \<open>An enriched and resolved relation of two links from stop A to stop B, the
  second one infeasible, in a store that holds nothing else.\<close>

definition ex_link :: "rat \<Rightarrow> row" where
  "ex_link transfer_type =
     mk_row [(TRANSFERS_COLUMN_FROM_STOP, Str ''A''), (TRANSFERS_COLUMN_TO_STOP, Str ''B''),
             (TRANSFERS_COLUMN_TRANSFER_TYPE, num transfer_type),
             (TRANSFERS_COLUMN_MIN_TRANSFER_TIME, num 0),
             (TRANSFERS_COLUMN_DISTANCE, num (1 / 2)),
             (TRANSFERS_COLUMN_PENALTY, num 1),
             (TRANSFERS_COLUMN_MIN_TRANSFER_TIME_MIN, num 0),
             (TRANSFERS_COLUMN_TIME_MIN, num 10),
             (TRANSFERS_COLUMN_TIME, TDelta 600000000),
             (TRANSFERS_COLUMN_FROM_STOP_NUM, num 1), (TRANSFERS_COLUMN_TO_STOP_NUM, num 2)]"

definition ex_relation :: dataframe where
  "ex_relation =
     \<lparr>columns = [TRANSFERS_COLUMN_FROM_STOP, TRANSFERS_COLUMN_TO_STOP,
                 TRANSFERS_COLUMN_TRANSFER_TYPE, TRANSFERS_COLUMN_MIN_TRANSFER_TIME,
                 TRANSFERS_COLUMN_DISTANCE, TRANSFERS_COLUMN_FROM_ROUTE, TRANSFERS_COLUMN_TO_ROUTE,
                 TRANSFERS_COLUMN_SCHEDULE_PRECEDENCE, TRANSFERS_COLUMN_PENALTY,
                 TRANSFERS_COLUMN_MIN_TRANSFER_TIME_MIN, TRANSFERS_COLUMN_TIME_MIN,
                 TRANSFERS_COLUMN_TIME, TRANSFERS_COLUMN_FROM_STOP_NUM, TRANSFERS_COLUMN_TO_STOP_NUM],
      index_names = [],
      rows = [ex_link 0, ex_link 3]\<rparr>"

definition ex_world :: world where
  "ex_world = \<lparr>csv_files = Map.empty, heap = (\<lambda>_. ex_relation), next_addr = 1,
               files = Map.empty, log = []\<rparr>"

definition ex_empty_world :: world where
  "ex_empty_world = \<lparr>csv_files = Map.empty, heap = (\<lambda>_. DataFrame_empty (columns ex_relation)),
                     next_addr = 1, files = Map.empty, log = []\<rparr>"

definition ex_self :: Transfer where
  "ex_self = \<lparr>output_dir = ''out'', transfers_df = 0\<rparr>"

text \<open>A renderer for the examples: a string as it is, a finite number by its integer
  part, anything else as the empty field.\<close>

definition ex_render :: "cell \<Rightarrow> string" where
  "ex_render c =
     (case c of Str s \<Rightarrow> s | Flt (Fin x) \<Rightarrow> str_nat (nat \<lfloor>x\<rfloor>) | Flt _ \<Rightarrow> [] | TDelta _ \<Rightarrow> [])"

text \<open>Inputs of the constructor: a \<^verbatim>\<open>float()\<close> that knows the strings of the
  examples, a transfer of the base feed, rows and frames of the supplemental file,
  and a world whose only input file is \<^verbatim>\<open>in/transfers_ft.txt\<close>.\<close>

definition ex_float :: "string \<Rightarrow> f64 option" where
  "ex_float s =
     (if s = ''0'' then Some (Fin 0) else if s = ''300'' then Some (Fin 300)
      else if s = ''60000'' then Some (Fin 60000) else None)"

definition ex_gtfs_transfer :: "string \<Rightarrow> string \<Rightarrow> rat \<Rightarrow> string \<Rightarrow> gtfs_transfer" where
  "ex_gtfs_transfer a b t m =
     [(''_schedule'', NA), (''from_stop_id'', Str a), (''to_stop_id'', Str b),
      (''transfer_type'', num t), (''min_transfer_time'', Str m)]"

definition ex_ft_row :: "string \<Rightarrow> string \<Rightarrow> rat \<Rightarrow> row" where
  "ex_ft_row a b d =
     mk_row [(TRANSFERS_COLUMN_FROM_STOP, Str a), (TRANSFERS_COLUMN_TO_STOP, Str b),
             (TRANSFERS_COLUMN_DISTANCE, num d)]"

definition ex_ft :: "row list \<Rightarrow> dataframe" where
  "ex_ft rs = \<lparr>columns = required_columns, index_names = [], rows = rs\<rparr>"

definition ex_input_world :: "dataframe \<Rightarrow> world" where
  "ex_input_world ft = \<lparr>csv_files = [''in/transfers_ft.txt'' \<mapsto> ft], heap = (\<lambda>_. DataFrame_empty []),
                        next_addr = 0, files = Map.empty, log = []\<rparr>"

definition ex_ft_with_types :: "row list \<Rightarrow> dataframe" where
  "ex_ft_with_types rs =
     \<lparr>columns = required_columns @ [TRANSFERS_COLUMN_TRANSFER_TYPE, TRANSFERS_COLUMN_MIN_TRANSFER_TIME],
      index_names = [], rows = rs\<rparr>"

definition ex_ft_typed_row :: "string \<Rightarrow> string \<Rightarrow> rat \<Rightarrow> rat \<Rightarrow> rat \<Rightarrow> row" where
  "ex_ft_typed_row a b d t m =
     mk_row [(TRANSFERS_COLUMN_FROM_STOP, Str a), (TRANSFERS_COLUMN_TO_STOP, Str b),
             (TRANSFERS_COLUMN_DISTANCE, num d), (TRANSFERS_COLUMN_TRANSFER_TYPE, num t),
             (TRANSFERS_COLUMN_MIN_TRANSFER_TIME, num m)]"

definition ex_ft_without :: "colname \<Rightarrow> row list \<Rightarrow> dataframe" where
  "ex_ft_without c rs = \<lparr>columns = filter (\<lambda>n. n \<noteq> c) required_columns, index_names = [], rows = rs\<rparr>"

section \<open>Lemmas on the operations\<close>

lemma bindE_Inr: "bindE m f = Inr y \<longleftrightarrow> (\<exists>x. m = Inr x \<and> f x = Inr y)"
  by (cases m) (simp_all add: bindE_def)

lemma bindE_Inl: "bindE m f = Inl e \<longleftrightarrow> (m = Inl e \<or> (\<exists>x. m = Inr x \<and> f x = Inl e))"
  by (cases m) (simp_all add: bindE_def)

lemma str_nat_SS: "str_nat (Suc (Suc 0)) = ''2''"
  by (simp add: str_nat.simps)

lemma loc_ne_Inr:
  "loc_ne c k df = Inr d \<Longrightarrow> rows d = filter (\<lambda>r. r c \<noteq> num k) (rows df) \<and> columns d = columns df"
  by (auto simp: loc_ne_def split: if_splits)

lemma drop_columns_Inr:
  "drop_columns cs df = Inr d \<Longrightarrow> rows d = rows df \<and> columns d = filter (\<lambda>c. c \<notin> set cs) (columns df)"
  by (auto simp: drop_columns_def split: option.splits)

lemma drop_columns_ok:
  "set cs \<subseteq> set (columns df) \<Longrightarrow>
   drop_columns cs df = Inr (df\<lparr>columns := filter (\<lambda>c. c \<notin> set cs) (columns df)\<rparr>)"
  by (auto simp: drop_columns_def find_None_iff split: option.splits)

lemma copy_column_Inr:
  "copy_column dst src df = Inr d \<Longrightarrow> rows d = map (\<lambda>r. r(dst := r src)) (rows df)"
  by (auto simp: copy_column_def split: if_splits)

lemma set_index_Inr:
  "set_index keys df = Inr d \<Longrightarrow>
     rows d = rows df \<and> index_names d = keys \<and> columns d = filter (\<lambda>c. c \<notin> set keys) (columns df)"
  by (auto simp: set_index_def split: option.splits)

lemma set_index_ok:
  "set keys \<subseteq> set (columns df) \<Longrightarrow>
   set_index keys df = Inr (df\<lparr>columns := filter (\<lambda>c. c \<notin> set keys) (columns df), index_names := keys\<rparr>)"
  by (auto simp: set_index_def find_None_iff split: option.splits)

subsection \<open>The export\<close>

lemma write_fails:
  "export_relation (heap w (transfers_df self)) = Inl e \<Longrightarrow>
   write_transfers_for_extension render self w = Inl e"
  by (auto simp: export_relation_def write_transfers_for_extension_def alloc_def inplace_def bindE_def
      split: sum.splits)

lemma write_succeeds:
  "export_relation (heap w (transfers_df self)) = Inr d \<Longrightarrow>
   \<exists>w'. write_transfers_for_extension render self w = Inr w'
       \<and> files w' = (files w)(os_path_join (output_dir self) OUTPUT_TRANSFERS_FILE \<mapsto> to_csv render d)
       \<and> log w' = log w @ [(DEBUG, [Text ''Wrote '', Text (os_path_join (output_dir self) OUTPUT_TRANSFERS_FILE)])]
       \<and> csv_files w' = csv_files w
       \<and> next_addr w' = Suc (Suc (Suc (next_addr w)))
       \<and> (\<forall>a. a < next_addr w \<longrightarrow> heap w' a = heap w a)"
  by (auto simp: export_relation_def write_transfers_for_extension_def alloc_def inplace_def bindE_def
      split: sum.splits)

lemma write_Inr:
  assumes "write_transfers_for_extension render self w = Inr w'"
  shows "\<exists>d. export_relation (heap w (transfers_df self)) = Inr d
       \<and> files w' = (files w)(os_path_join (output_dir self) OUTPUT_TRANSFERS_FILE \<mapsto> to_csv render d)
       \<and> next_addr w' = Suc (Suc (Suc (next_addr w)))
       \<and> (\<forall>a. a < next_addr w \<longrightarrow> heap w' a = heap w a)"
proof (cases "export_relation (heap w (transfers_df self))")
  case (Inl e)
  from write_fails[OF this] assms show ?thesis by simp
next
  case (Inr d)
  from write_succeeds[OF this, of render] assms show ?thesis using Inr by auto
qed

lemma long_rows:
  assumes "l \<in> set (rows (rename_columns [(''level_2'', ''attr_name''), (''0'', ''attr_value'')] (stack_reset_index d5)))"
    and "index_names d5 = [TRANSFERS_COLUMN_FROM_STOP_NUM, TRANSFERS_COLUMN_TO_STOP_NUM]"
  shows "\<exists>r \<in> set (rows d5). \<exists>c \<in> set (columns d5). \<not> isna (r c)
           \<and> l TRANSFERS_COLUMN_FROM_STOP_NUM = r TRANSFERS_COLUMN_FROM_STOP_NUM
           \<and> l TRANSFERS_COLUMN_TO_STOP_NUM = r TRANSFERS_COLUMN_TO_STOP_NUM
           \<and> l ''attr_name'' = Str c \<and> l ''attr_value'' = r c"
proof -
  from assms obtain r c where r: "r \<in> set (rows d5)" and c: "c \<in> set (columns d5)" "\<not> isna (r c)"
    and l: "l = mk_row (map (\<lambda>n. (renamed [(''level_2'', ''attr_name''), (''0'', ''attr_value'')] n,
                 stacked_row [TRANSFERS_COLUMN_FROM_STOP_NUM, TRANSFERS_COLUMN_TO_STOP_NUM] r c n))
               [TRANSFERS_COLUMN_FROM_STOP_NUM, TRANSFERS_COLUMN_TO_STOP_NUM, ''level_2'', ''0''])"
    by (auto simp: rename_columns_def stack_reset_index_def str_nat_SS)
  have "l TRANSFERS_COLUMN_FROM_STOP_NUM = r TRANSFERS_COLUMN_FROM_STOP_NUM"
    "l TRANSFERS_COLUMN_TO_STOP_NUM = r TRANSFERS_COLUMN_TO_STOP_NUM"
    "l ''attr_name'' = Str c" "l ''attr_value'' = r c"
    unfolding l by (simp_all add: mk_row_def renamed_def stacked_row_def str_nat_SS)
  with r c show ?thesis by blast
qed

lemma export_relation_Inr:
  assumes "export_relation df = Inr d"
  shows "\<exists>d5. d = rename_columns [(''level_2'', ''attr_name''), (''0'', ''attr_value'')] (stack_reset_index d5)
           \<and> index_names d5 = [TRANSFERS_COLUMN_FROM_STOP_NUM, TRANSFERS_COLUMN_TO_STOP_NUM]
           \<and> rows d5 = map (\<lambda>r. r(''walk_time_min'' := r TRANSFERS_COLUMN_TIME_MIN))
                          (filter (\<lambda>r. r TRANSFERS_COLUMN_TRANSFER_TYPE \<noteq> num 3) (rows df))
           \<and> TRANSFERS_COLUMN_FROM_STOP_NUM \<notin> set (columns d5)
           \<and> TRANSFERS_COLUMN_TO_STOP_NUM \<notin> set (columns d5)"
proof -
  from assms obtain d2 d3 d4 d5 where
    d2: "loc_ne TRANSFERS_COLUMN_TRANSFER_TYPE 3 df = Inr d2"
    and d3: "drop_columns [TRANSFERS_COLUMN_TIME, TRANSFERS_COLUMN_FROM_STOP,
                          TRANSFERS_COLUMN_TO_STOP, TRANSFERS_COLUMN_MIN_TRANSFER_TIME,
                          TRANSFERS_COLUMN_SCHEDULE_PRECEDENCE,
                          TRANSFERS_COLUMN_FROM_ROUTE, TRANSFERS_COLUMN_TO_ROUTE] d2 = Inr d3"
    and d4: "copy_column ''walk_time_min'' TRANSFERS_COLUMN_TIME_MIN d3 = Inr d4"
    and d5: "set_index [TRANSFERS_COLUMN_FROM_STOP_NUM, TRANSFERS_COLUMN_TO_STOP_NUM] d4 = Inr d5"
    and d: "d = rename_columns [(''level_2'', ''attr_name''), (''0'', ''attr_value'')] (stack_reset_index d5)"
    unfolding export_relation_def bindE_Inr by auto
  have "rows d5 = map (\<lambda>r. r(''walk_time_min'' := r TRANSFERS_COLUMN_TIME_MIN))
                          (filter (\<lambda>r. r TRANSFERS_COLUMN_TRANSFER_TYPE \<noteq> num 3) (rows df))"
    using loc_ne_Inr[OF d2] drop_columns_Inr[OF d3] copy_column_Inr[OF d4] set_index_Inr[OF d5]
    by simp
  moreover have "index_names d5 = [TRANSFERS_COLUMN_FROM_STOP_NUM, TRANSFERS_COLUMN_TO_STOP_NUM]"
    "TRANSFERS_COLUMN_FROM_STOP_NUM \<notin> set (columns d5)" "TRANSFERS_COLUMN_TO_STOP_NUM \<notin> set (columns d5)"
    using set_index_Inr[OF d5] by simp_all
  ultimately show ?thesis using d by blast
qed

lemma export_rows:
  assumes "export_relation df = Inr d" and "l \<in> set (rows d)"
  shows "\<exists>r \<in> set (rows df). r TRANSFERS_COLUMN_TRANSFER_TYPE \<noteq> num 3
           \<and> l TRANSFERS_COLUMN_FROM_STOP_NUM = r TRANSFERS_COLUMN_FROM_STOP_NUM
           \<and> l TRANSFERS_COLUMN_TO_STOP_NUM = r TRANSFERS_COLUMN_TO_STOP_NUM
           \<and> (\<exists>c. l ''attr_name'' = Str c
                 \<and> l ''attr_value'' = (r(''walk_time_min'' := r TRANSFERS_COLUMN_TIME_MIN)) c
                 \<and> c \<noteq> TRANSFERS_COLUMN_FROM_STOP_NUM \<and> c \<noteq> TRANSFERS_COLUMN_TO_STOP_NUM)"
proof -
  from export_relation_Inr[OF assms(1)] obtain d5 where
    d: "d = rename_columns [(''level_2'', ''attr_name''), (''0'', ''attr_value'')] (stack_reset_index d5)"
    and ix: "index_names d5 = [TRANSFERS_COLUMN_FROM_STOP_NUM, TRANSFERS_COLUMN_TO_STOP_NUM]"
    and rs: "rows d5 = map (\<lambda>r. r(''walk_time_min'' := r TRANSFERS_COLUMN_TIME_MIN))
                          (filter (\<lambda>r. r TRANSFERS_COLUMN_TRANSFER_TYPE \<noteq> num 3) (rows df))"
    and nf: "TRANSFERS_COLUMN_FROM_STOP_NUM \<notin> set (columns d5)"
    and nt: "TRANSFERS_COLUMN_TO_STOP_NUM \<notin> set (columns d5)"
    by blast
  from long_rows[OF assms(2)[unfolded d] ix] obtain r' c where
    r': "r' \<in> set (rows d5)" and c: "c \<in> set (columns d5)"
    and l: "l TRANSFERS_COLUMN_FROM_STOP_NUM = r' TRANSFERS_COLUMN_FROM_STOP_NUM"
       "l TRANSFERS_COLUMN_TO_STOP_NUM = r' TRANSFERS_COLUMN_TO_STOP_NUM"
       "l ''attr_name'' = Str c" "l ''attr_value'' = r' c"
    by blast
  from r' rs obtain r where r: "r \<in> set (rows df)" "r TRANSFERS_COLUMN_TRANSFER_TYPE \<noteq> num 3"
    and r'r: "r' = r(''walk_time_min'' := r TRANSFERS_COLUMN_TIME_MIN)"
    by auto
  from c nf nt have "c \<noteq> TRANSFERS_COLUMN_FROM_STOP_NUM" "c \<noteq> TRANSFERS_COLUMN_TO_STOP_NUM" by auto
  with r l show ?thesis unfolding r'r by (intro bexI[of _ r]) auto
qed

lemma export_no_type3:
  assumes "export_relation df = Inr d" and "l \<in> set (rows d)"
  shows "\<not> (l ''attr_name'' = Str TRANSFERS_COLUMN_TRANSFER_TYPE \<and> l ''attr_value'' = num 3)"
proof
  assume a: "l ''attr_name'' = Str TRANSFERS_COLUMN_TRANSFER_TYPE \<and> l ''attr_value'' = num 3"
  from export_rows[OF assms] obtain r c where
    r: "r TRANSFERS_COLUMN_TRANSFER_TYPE \<noteq> num 3" and c: "l ''attr_name'' = Str c"
    and v: "l ''attr_value'' = (r(''walk_time_min'' := r TRANSFERS_COLUMN_TIME_MIN)) c"
    by blast
  from a c have "c = TRANSFERS_COLUMN_TRANSFER_TYPE" by simp
  with v have "l ''attr_value'' = r TRANSFERS_COLUMN_TRANSFER_TYPE" by simp
  with a r show False by simp
qed
lemma export_relation_ok:
  assumes "set [TRANSFERS_COLUMN_TRANSFER_TYPE, TRANSFERS_COLUMN_TIME, TRANSFERS_COLUMN_FROM_STOP,
                TRANSFERS_COLUMN_TO_STOP, TRANSFERS_COLUMN_MIN_TRANSFER_TIME,
                TRANSFERS_COLUMN_SCHEDULE_PRECEDENCE, TRANSFERS_COLUMN_FROM_ROUTE,
                TRANSFERS_COLUMN_TO_ROUTE, TRANSFERS_COLUMN_TIME_MIN,
                TRANSFERS_COLUMN_FROM_STOP_NUM, TRANSFERS_COLUMN_TO_STOP_NUM] \<subseteq> set (columns df)"
  shows "\<exists>d. export_relation df = Inr d"
proof -
  let ?d2 = "df\<lparr>rows := filter (\<lambda>r. r TRANSFERS_COLUMN_TRANSFER_TYPE \<noteq> num 3) (rows df)\<rparr>"
  let ?cs = "[TRANSFERS_COLUMN_TIME, TRANSFERS_COLUMN_FROM_STOP,
                          TRANSFERS_COLUMN_TO_STOP, TRANSFERS_COLUMN_MIN_TRANSFER_TIME,
                          TRANSFERS_COLUMN_SCHEDULE_PRECEDENCE,
                          TRANSFERS_COLUMN_FROM_ROUTE, TRANSFERS_COLUMN_TO_ROUTE]"
  have 1: "loc_ne TRANSFERS_COLUMN_TRANSFER_TYPE 3 df = Inr ?d2"
    using assms by (simp add: loc_ne_def)
  have "set ?cs \<subseteq> set (columns ?d2)" using assms by simp
  from drop_columns_ok[OF this] obtain d3 where 2: "drop_columns ?cs ?d2 = Inr d3"
    and c3: "columns d3 = filter (\<lambda>c. c \<notin> set ?cs) (columns df)" by simp
  have t3: "TRANSFERS_COLUMN_TIME_MIN \<in> set (columns d3)"
    "TRANSFERS_COLUMN_FROM_STOP_NUM \<in> set (columns d3)" "TRANSFERS_COLUMN_TO_STOP_NUM \<in> set (columns d3)"
    unfolding c3 using assms by simp_all
  then obtain d4 where 3: "copy_column ''walk_time_min'' TRANSFERS_COLUMN_TIME_MIN d3 = Inr d4"
    and c4: "columns d4 = add_column ''walk_time_min'' (columns d3)"
    by (simp add: copy_column_def)
  have "set [TRANSFERS_COLUMN_FROM_STOP_NUM, TRANSFERS_COLUMN_TO_STOP_NUM] \<subseteq> set (columns d4)"
    unfolding c4 using t3 by (simp add: add_column_def)
  from set_index_ok[OF this] obtain d5 where
    4: "set_index [TRANSFERS_COLUMN_FROM_STOP_NUM, TRANSFERS_COLUMN_TO_STOP_NUM] d4 = Inr d5" by simp
  show ?thesis unfolding export_relation_def by (simp add: 1 2 3 4 bindE_def)
qed

lemma ex_relation_exports: "\<exists>d. export_relation ex_relation = Inr d"
  by (rule export_relation_ok) (simp add: ex_relation_def)

lemma ex_write: "\<exists>w'. write_transfers_for_extension ex_render ex_self ex_world = Inr w'"
proof -
  have "heap ex_world (transfers_df ex_self) = ex_relation" by (simp add: ex_world_def)
  with ex_relation_exports obtain d where "export_relation (heap ex_world (transfers_df ex_self)) = Inr d"
    by auto
  from write_succeeds[OF this] show ?thesis by blast
qed

section \<open>The claims about the export\<close>

text \<open>
  C10. When the merged relation has no rows, \<open>add_numeric_stop_id\<close> resolves nothing
  and does not call the export: the object and the whole world, its files, its store
  and its log, are returned as they were, so no output file is written.
\<close>

theorem empty_relation_is_left_alone:
  "rows (heap w (transfers_df self)) = [] \<Longrightarrow> add_numeric_stop_id render stops self w = Inr (self, w)"
  by (simp add: add_numeric_stop_id_def)

theorem empty_relation_is_left_alone_witness:
  "rows (heap ex_empty_world (transfers_df ex_self)) = []
   \<and> add_numeric_stop_id ex_render Map.empty ex_self ex_empty_world = Inr (ex_self, ex_empty_world)
   \<and> files ex_empty_world = Map.empty"
proof -
  have e: "rows (heap ex_empty_world (transfers_df ex_self)) = []"
    by (simp add: ex_empty_world_def DataFrame_empty_def)
  from empty_relation_is_left_alone[OF e] e show ?thesis
    by (simp add: ex_empty_world_def)
qed

text \<open>
  C9. The export works on a copy: when \<open>write_transfers_for_extension\<close> returns, the
  frame that \<open>self.transfers_df\<close> refers to is the frame it referred to before the
  call, with every row and column as it was.
\<close>

theorem export_does_not_mutate_relation:
  assumes "transfers_df self < next_addr w"
    and "write_transfers_for_extension render self w = Inr w'"
  shows "heap w' (transfers_df self) = heap w (transfers_df self)"
  using write_Inr[OF assms(2)] assms(1) by auto

theorem export_does_not_mutate_relation_witness:
  "transfers_df ex_self < next_addr ex_world
   \<and> (\<exists>w'. write_transfers_for_extension ex_render ex_self ex_world = Inr w'
          \<and> heap w' (transfers_df ex_self) = ex_relation)"
proof -
  have lt: "transfers_df ex_self < next_addr ex_world" by (simp add: ex_self_def ex_world_def)
  from ex_write obtain w' where w': "write_transfers_for_extension ex_render ex_self ex_world = Inr w'" ..
  from export_does_not_mutate_relation[OF lt w'] lt w' show ?thesis
    by (auto simp: ex_world_def)
qed

text \<open>
  C8. The export is idempotent: a second call of \<open>write_transfers_for_extension\<close> on
  the same object, in the world the first call left, succeeds as well and leaves
  every file, the output file among them, with the text the first call wrote.
\<close>

theorem export_is_idempotent:
  assumes "transfers_df self < next_addr w"
    and "write_transfers_for_extension render self w = Inr w1"
  shows "\<exists>w2. write_transfers_for_extension render self w1 = Inr w2 \<and> files w2 = files w1"
proof -
  from write_Inr[OF assms(2)] obtain d where
    d: "export_relation (heap w (transfers_df self)) = Inr d"
    and f1: "files w1 = (files w)(os_path_join (output_dir self) OUTPUT_TRANSFERS_FILE \<mapsto> to_csv render d)"
    and h1: "\<forall>a. a < next_addr w \<longrightarrow> heap w1 a = heap w a"
    by blast
  from h1 assms(1) have "heap w1 (transfers_df self) = heap w (transfers_df self)" by simp
  with d have "export_relation (heap w1 (transfers_df self)) = Inr d" by simp
  from write_succeeds[OF this, of render] obtain w2 where
    w2: "write_transfers_for_extension render self w1 = Inr w2"
    and f2: "files w2 = (files w1)(os_path_join (output_dir self) OUTPUT_TRANSFERS_FILE \<mapsto> to_csv render d)"
    by blast
  from f1 f2 have "files w2 = files w1" by simp
  with w2 show ?thesis by blast
qed

theorem export_is_idempotent_witness:
  "transfers_df ex_self < next_addr ex_world
   \<and> (\<exists>w1 w2. write_transfers_for_extension ex_render ex_self ex_world = Inr w1
          \<and> write_transfers_for_extension ex_render ex_self w1 = Inr w2 \<and> files w2 = files w1)"
proof -
  have lt: "transfers_df ex_self < next_addr ex_world" by (simp add: ex_self_def ex_world_def)
  from ex_write obtain w1 where w1: "write_transfers_for_extension ex_render ex_self ex_world = Inr w1" ..
  from export_is_idempotent[OF lt w1] lt w1 show ?thesis by blast
qed

text \<open>
  C7. No infeasible transfer reaches the exported file. When the export succeeds,
  the file holds the text of a long-form frame \<open>d\<close> in which every line belongs to
  a link of the relation whose transfer_type is not 3 (it carries that link's two
  numeric stop ids, the name of one of its attributes and the attribute's value),
  so no line says transfer_type 3; and the relation in memory keeps all its rows,
  the infeasible ones too.
\<close>

theorem infeasible_transfers_are_not_exported:
  assumes "transfers_df self < next_addr w"
    and "write_transfers_for_extension render self w = Inr w'"
  shows "\<exists>d. export_relation (heap w (transfers_df self)) = Inr d
           \<and> files w' (os_path_join (output_dir self) OUTPUT_TRANSFERS_FILE) = Some (to_csv render d)
           \<and> list_all (\<lambda>l. \<exists>r \<in> set (rows (heap w (transfers_df self))).
                              r TRANSFERS_COLUMN_TRANSFER_TYPE \<noteq> num 3
                              \<and> l TRANSFERS_COLUMN_FROM_STOP_NUM = r TRANSFERS_COLUMN_FROM_STOP_NUM
                              \<and> l TRANSFERS_COLUMN_TO_STOP_NUM = r TRANSFERS_COLUMN_TO_STOP_NUM
                              \<and> (\<exists>c. l ''attr_name'' = Str c
                                    \<and> l ''attr_value'' = (r(''walk_time_min'' := r TRANSFERS_COLUMN_TIME_MIN)) c))
                 (rows d)
           \<and> list_all (\<lambda>l. \<not> (l ''attr_name'' = Str TRANSFERS_COLUMN_TRANSFER_TYPE \<and> l ''attr_value'' = num 3))
                 (rows d)
           \<and> rows (heap w' (transfers_df self)) = rows (heap w (transfers_df self))"
proof -
  from write_Inr[OF assms(2)] obtain d where
    d: "export_relation (heap w (transfers_df self)) = Inr d"
    and f: "files w' = (files w)(os_path_join (output_dir self) OUTPUT_TRANSFERS_FILE \<mapsto> to_csv render d)"
    and h: "\<forall>a. a < next_addr w \<longrightarrow> heap w' a = heap w a"
    by blast
  have 1: "list_all (\<lambda>l. \<exists>r \<in> set (rows (heap w (transfers_df self))).
                              r TRANSFERS_COLUMN_TRANSFER_TYPE \<noteq> num 3
                              \<and> l TRANSFERS_COLUMN_FROM_STOP_NUM = r TRANSFERS_COLUMN_FROM_STOP_NUM
                              \<and> l TRANSFERS_COLUMN_TO_STOP_NUM = r TRANSFERS_COLUMN_TO_STOP_NUM
                              \<and> (\<exists>c. l ''attr_name'' = Str c
                                    \<and> l ''attr_value'' = (r(''walk_time_min'' := r TRANSFERS_COLUMN_TIME_MIN)) c))
                 (rows d)"
    unfolding list_all_iff using export_rows[OF d] by blast
  have 2: "list_all (\<lambda>l. \<not> (l ''attr_name'' = Str TRANSFERS_COLUMN_TRANSFER_TYPE \<and> l ''attr_value'' = num 3))
                 (rows d)"
    unfolding list_all_iff using export_no_type3[OF d] by blast
  from h assms(1) have 3: "heap w' (transfers_df self) = heap w (transfers_df self)" by simp
  from d f 1 2 3 show ?thesis by simp
qed

theorem infeasible_transfers_are_not_exported_witness:
  "transfers_df ex_self < next_addr ex_world
   \<and> (\<exists>w' d. write_transfers_for_extension ex_render ex_self ex_world = Inr w'
          \<and> files w' ''out/ft_intermediate_transfers.txt'' = Some (to_csv ex_render d)
          \<and> list_all (\<lambda>l. \<not> (l ''attr_name'' = Str TRANSFERS_COLUMN_TRANSFER_TYPE \<and> l ''attr_value'' = num 3))
                 (rows d)
          \<and> map (\<lambda>r. r TRANSFERS_COLUMN_TRANSFER_TYPE) (rows (heap w' (transfers_df ex_self))) = [num 0, num 3])"
proof -
  have lt: "transfers_df ex_self < next_addr ex_world" by (simp add: ex_self_def ex_world_def)
  have p: "os_path_join (output_dir ex_self) OUTPUT_TRANSFERS_FILE = ''out/ft_intermediate_transfers.txt''"
    by (simp add: os_path_join_def ex_self_def)
  have r: "map (\<lambda>r. r TRANSFERS_COLUMN_TRANSFER_TYPE) (rows (heap ex_world (transfers_df ex_self))) = [num 0, num 3]"
    by (simp add: ex_world_def ex_relation_def ex_link_def mk_row_def)
  from ex_write obtain w' where w': "write_transfers_for_extension ex_render ex_self ex_world = Inr w'" ..
  from infeasible_transfers_are_not_exported[OF lt w'] lt w' p r show ?thesis by auto
qed

section \<open>Lemmas on the constructor\<close>

lemma as_float_Inr: "as_float c = Inr x \<longleftrightarrow> c = Flt x"
  by (cases c) (simp_all add: as_float_def)

lemma mapE_length: "mapE f xs = Inr ys \<Longrightarrow> length ys = length xs"
  by (induction xs arbitrary: ys) (auto split: sum.splits)

lemma mapE_back: "mapE f xs = Inr ys \<Longrightarrow> y \<in> set ys \<Longrightarrow> \<exists>x \<in> set xs. f x = Inr y"
  by (induction xs arbitrary: ys) (auto split: sum.splits)

lemma mapE_forth: "mapE f xs = Inr ys \<Longrightarrow> x \<in> set xs \<Longrightarrow> \<exists>y \<in> set ys. f x = Inr y"
  by (induction xs arbitrary: ys) (auto split: sum.splits)

lemma filterE_total: "(\<And>x. x \<in> set xs \<Longrightarrow> p x = Inr (q x)) \<Longrightarrow> filterE p xs = Inr (filter q xs)"
  by (induction xs) simp_all

lemma assign_map_Inr:
  assumes "assign_map dst src f df = Inr d"
  shows "src \<in> set (columns df)" and "columns d = add_column dst (columns df)"
    and "length (rows d) = length (rows df)"
    and "r' \<in> set (rows d) \<Longrightarrow> \<exists>r \<in> set (rows df). \<exists>x. r src = Flt x \<and> r' = r(dst := Flt (f x))"
    and "r \<in> set (rows df) \<Longrightarrow> \<exists>x. r src = Flt x \<and> r(dst := Flt (f x)) \<in> set (rows d)"
proof -
  from assms show c: "src \<in> set (columns df)" by (simp add: assign_map_def split: if_splits)
  with assms obtain rs where
    m: "mapE (\<lambda>r. bindE (as_float (r src)) (\<lambda>x. Inr (r(dst := Flt (f x))))) (rows df) = Inr rs"
    and d: "d = df\<lparr>columns := add_column dst (columns df), rows := rs\<rparr>"
    by (auto simp: assign_map_def bindE_Inr)
  from d show "columns d = add_column dst (columns df)" by simp
  from d mapE_length[OF m] show "length (rows d) = length (rows df)" by simp
  { assume "r' \<in> set (rows d)"
    with d have "r' \<in> set rs" by simp
    from mapE_back[OF m this] show "\<exists>r \<in> set (rows df). \<exists>x. r src = Flt x \<and> r' = r(dst := Flt (f x))"
      by (auto simp: bindE_Inr as_float_Inr) }
  { assume "r \<in> set (rows df)"
    from mapE_forth[OF m this] d show "\<exists>x. r src = Flt x \<and> r(dst := Flt (f x)) \<in> set (rows d)"
      by (auto simp: bindE_Inr as_float_Inr) }
qed

lemma derived_times_Inr:
  assumes "derived_times df = Inr df2"
  shows "TRANSFERS_COLUMN_MIN_TRANSFER_TIME \<in> set (columns df)"
    and "TRANSFERS_COLUMN_DISTANCE \<in> set (columns df)"
    and "TRANSFERS_COLUMN_TIME_MIN \<in> set (columns df2)"
    and "length (rows df2) = length (rows df)"
    and "r2 \<in> set (rows df2) \<Longrightarrow>
           \<exists>r \<in> set (rows df). \<exists>m d. r TRANSFERS_COLUMN_MIN_TRANSFER_TIME = Flt m
              \<and> r TRANSFERS_COLUMN_DISTANCE = Flt d
              \<and> r2 = r(TRANSFERS_COLUMN_MIN_TRANSFER_TIME_MIN := Flt (f64_div_pos m 60),
                        TRANSFERS_COLUMN_TIME_MIN := Flt (walk_time d))"
    and "r \<in> set (rows df) \<Longrightarrow>
           \<exists>m d. r TRANSFERS_COLUMN_MIN_TRANSFER_TIME = Flt m \<and> r TRANSFERS_COLUMN_DISTANCE = Flt d
              \<and> r(TRANSFERS_COLUMN_MIN_TRANSFER_TIME_MIN := Flt (f64_div_pos m 60),
                   TRANSFERS_COLUMN_TIME_MIN := Flt (walk_time d)) \<in> set (rows df2)"
proof -
  from assms obtain df1 where
    1: "assign_map TRANSFERS_COLUMN_MIN_TRANSFER_TIME_MIN TRANSFERS_COLUMN_MIN_TRANSFER_TIME
              (\<lambda>x. f64_div_pos x 60) df = Inr df1"
    and 2: "assign_map TRANSFERS_COLUMN_TIME_MIN TRANSFERS_COLUMN_DISTANCE walk_time df1 = Inr df2"
    by (auto simp: derived_times_def bindE_Inr)
  note a = assign_map_Inr[OF 1] and b = assign_map_Inr[OF 2]
  show "TRANSFERS_COLUMN_MIN_TRANSFER_TIME \<in> set (columns df)" by (rule a(1))
  from b(1) a(2) show "TRANSFERS_COLUMN_DISTANCE \<in> set (columns df)"
    by (simp add: add_column_def split: if_splits)
  from b(2) show "TRANSFERS_COLUMN_TIME_MIN \<in> set (columns df2)" by (simp add: add_column_def)
  from a(3) b(3) show "length (rows df2) = length (rows df)" by simp
  { assume "r2 \<in> set (rows df2)"
    from b(4)[OF this] obtain r1 d where r1: "r1 \<in> set (rows df1)" "r1 TRANSFERS_COLUMN_DISTANCE = Flt d"
      "r2 = r1(TRANSFERS_COLUMN_TIME_MIN := Flt (walk_time d))" by blast
    from a(4)[OF r1(1)] obtain r m where r: "r \<in> set (rows df)" "r TRANSFERS_COLUMN_MIN_TRANSFER_TIME = Flt m"
      "r1 = r(TRANSFERS_COLUMN_MIN_TRANSFER_TIME_MIN := Flt (f64_div_pos m 60))" by blast
    from r1(2) r(3) have "r TRANSFERS_COLUMN_DISTANCE = Flt d" by simp
    with r r1(3) show "\<exists>r \<in> set (rows df). \<exists>m d. r TRANSFERS_COLUMN_MIN_TRANSFER_TIME = Flt m
              \<and> r TRANSFERS_COLUMN_DISTANCE = Flt d
              \<and> r2 = r(TRANSFERS_COLUMN_MIN_TRANSFER_TIME_MIN := Flt (f64_div_pos m 60),
                        TRANSFERS_COLUMN_TIME_MIN := Flt (walk_time d))"
      by blast }
  { assume "r \<in> set (rows df)"
    from a(5)[OF this] obtain m where m: "r TRANSFERS_COLUMN_MIN_TRANSFER_TIME = Flt m"
      "r(TRANSFERS_COLUMN_MIN_TRANSFER_TIME_MIN := Flt (f64_div_pos m 60)) \<in> set (rows df1)" by blast
    from b(5)[OF m(2)] obtain d where d:
      "(r(TRANSFERS_COLUMN_MIN_TRANSFER_TIME_MIN := Flt (f64_div_pos m 60))) TRANSFERS_COLUMN_DISTANCE = Flt d"
      "r(TRANSFERS_COLUMN_MIN_TRANSFER_TIME_MIN := Flt (f64_div_pos m 60),
         TRANSFERS_COLUMN_TIME_MIN := Flt (walk_time d)) \<in> set (rows df2)" by blast
    from d(1) have "r TRANSFERS_COLUMN_DISTANCE = Flt d" by simp
    with m(1) d(2) show "\<exists>m d. r TRANSFERS_COLUMN_MIN_TRANSFER_TIME = Flt m \<and> r TRANSFERS_COLUMN_DISTANCE = Flt d
              \<and> r(TRANSFERS_COLUMN_MIN_TRANSFER_TIME_MIN := Flt (f64_div_pos m 60),
                   TRANSFERS_COLUMN_TIME_MIN := Flt (walk_time d)) \<in> set (rows df2)"
      by blast }
qed

lemma loc_gt_derived:
  assumes "derived_times df = Inr df2"
  shows "loc_gt TRANSFERS_COLUMN_TIME_MIN 780 df2 = Inr (filter too_long (rows df2))"
proof -
  have "filterE (\<lambda>r. bindE (as_float (r TRANSFERS_COLUMN_TIME_MIN)) (\<lambda>x. Inr (f64_gt x (Fin 780)))) (rows df2)
        = Inr (filter too_long (rows df2))"
  proof (rule filterE_total)
    fix r2 assume "r2 \<in> set (rows df2)"
    from derived_times_Inr(5)[OF assms this] obtain t where "r2 TRANSFERS_COLUMN_TIME_MIN = Flt t"
      by auto
    then show "bindE (as_float (r2 TRANSFERS_COLUMN_TIME_MIN)) (\<lambda>x. Inr (f64_gt x (Fin 780))) = Inr (too_long r2)"
      by (simp add: bindE_def as_float_def too_long_def)
  qed
  with derived_times_Inr(3)[OF assms] show ?thesis by (simp add: loc_gt_def)
qed

lemma floored_times_Inr:
  assumes "floored_times df2 = Inr df'" and "r' \<in> set (rows df')"
  shows "\<exists>r2 \<in> set (rows df2). \<exists>x y us. r2 TRANSFERS_COLUMN_TIME_MIN = Flt x
           \<and> r2 TRANSFERS_COLUMN_MIN_TRANSFER_TIME_MIN = Flt y
           \<and> timedelta_minutes (if f64_lt x y then y else x) = Inr us
           \<and> r' = r2(TRANSFERS_COLUMN_TIME_MIN := Flt (if f64_lt x y then y else x),
                     TRANSFERS_COLUMN_TIME := TDelta us)"
proof -
  from assms(1) obtain df3 where
    3: "floor_column TRANSFERS_COLUMN_TIME_MIN TRANSFERS_COLUMN_MIN_TRANSFER_TIME_MIN df2 = Inr df3"
    and 4: "assign_timedelta TRANSFERS_COLUMN_TIME TRANSFERS_COLUMN_TIME_MIN df3 = Inr df'"
    by (auto simp: floored_times_def bindE_Inr)
  from 3 obtain rs3 where
    m3: "mapE (\<lambda>r. bindE (as_float (r TRANSFERS_COLUMN_TIME_MIN)) (\<lambda>x.
                bindE (as_float (r TRANSFERS_COLUMN_MIN_TRANSFER_TIME_MIN))
                  (\<lambda>y. Inr (if f64_lt x y then r(TRANSFERS_COLUMN_TIME_MIN := r TRANSFERS_COLUMN_MIN_TRANSFER_TIME_MIN) else r))))
           (rows df2) = Inr rs3"
    and d3: "rows df3 = rs3"
    by (auto simp: floor_column_def bindE_Inr split: if_splits)
  from 4 obtain rs4 where
    m4: "mapE (\<lambda>r. bindE (as_float (r TRANSFERS_COLUMN_TIME_MIN)) (\<lambda>x. bindE (timedelta_minutes x)
                (\<lambda>us. Inr (r(TRANSFERS_COLUMN_TIME := TDelta us))))) (rows df3) = Inr rs4"
    and d4: "rows df' = rs4"
    by (auto simp: assign_timedelta_def bindE_Inr split: if_splits)
  from assms(2) d4 have "r' \<in> set rs4" by simp
  from mapE_back[OF m4 this] obtain r3 z us where r3: "r3 \<in> set (rows df3)"
    and z: "r3 TRANSFERS_COLUMN_TIME_MIN = Flt z" "timedelta_minutes z = Inr us"
    and r': "r' = r3(TRANSFERS_COLUMN_TIME := TDelta us)"
    by (auto simp: bindE_Inr as_float_Inr)
  from r3 d3 have "r3 \<in> set rs3" by simp
  from mapE_back[OF m3 this] obtain r2 x y where r2: "r2 \<in> set (rows df2)"
    and x: "r2 TRANSFERS_COLUMN_TIME_MIN = Flt x" and y: "r2 TRANSFERS_COLUMN_MIN_TRANSFER_TIME_MIN = Flt y"
    and r3': "r3 = (if f64_lt x y then r2(TRANSFERS_COLUMN_TIME_MIN := r2 TRANSFERS_COLUMN_MIN_TRANSFER_TIME_MIN) else r2)"
    by (auto simp: bindE_Inr as_float_Inr)
  have r3eq: "r3 = r2(TRANSFERS_COLUMN_TIME_MIN := Flt (if f64_lt x y then y else x))"
  proof (cases "f64_lt x y")
    case True with r3' y show ?thesis by simp
  next
    case False
    with r3' have "r3 = r2" by simp
    moreover have "r2(TRANSFERS_COLUMN_TIME_MIN := Flt x) = r2" using x by (metis fun_upd_triv)
    ultimately show ?thesis using False by simp
  qed
  with z(1) have "z = (if f64_lt x y then y else x)" by simp
  with z(2) r' r3eq r2 x y show ?thesis by blast
qed

lemma enrich_empty: "rows df = [] \<Longrightarrow> enrich df = (Inr df, [])"
  by (simp add: enrich_def)

lemma enrich_too_long:
  assumes "derived_times df = Inr df2" and "rows df \<noteq> []" and "filter too_long (rows df2) \<noteq> []"
  shows "enrich df =
     (Inl (NetworkInputError INPUT_TRANSFERS_FILE
             (error_msg (length (filter too_long (rows df2))) (length (rows df2)))),
      [(FATAL, [Text (error_msg (length (filter too_long (rows df2))) (length (rows df2)))]),
       (FATAL, [Text ''\<newline>'', Frame (take 5 (filter too_long (rows df2))), Text ''\<newline>''])])"
  using assms(2,3) by (simp add: enrich_def assms(1) loc_gt_derived[OF assms(1)])

lemma enrich_Inr:
  assumes "enrich df = (Inr df', l)" and "rows df \<noteq> []"
  shows "\<exists>df2. derived_times df = Inr df2 \<and> filter too_long (rows df2) = [] \<and> floored_times df2 = Inr df'"
proof (cases "derived_times df")
  case (Inl e)
  with assms show ?thesis by (simp add: enrich_def)
next
  case (Inr df2)
  show ?thesis
  proof (cases "filter too_long (rows df2) = []")
    case True
    with assms Inr show ?thesis by (simp add: enrich_def loc_gt_derived[OF Inr])
  next
    case False
    from enrich_too_long[OF Inr assms(2) False] assms(1) show ?thesis by simp
  qed
qed

lemma enrich_rows:
  assumes "enrich df = (Inr df', l)" and "r' \<in> set (rows df')" and "rows df \<noteq> []"
  shows "\<exists>r \<in> set (rows df). \<exists>m d us.
            r TRANSFERS_COLUMN_MIN_TRANSFER_TIME = Flt m \<and> r TRANSFERS_COLUMN_DISTANCE = Flt d
          \<and> \<not> f64_gt (walk_time d) (Fin 780)
          \<and> timedelta_minutes (if f64_lt (walk_time d) (f64_div_pos m 60) then f64_div_pos m 60 else walk_time d) = Inr us
          \<and> r' = r(TRANSFERS_COLUMN_MIN_TRANSFER_TIME_MIN := Flt (f64_div_pos m 60),
                   TRANSFERS_COLUMN_TIME_MIN := Flt (if f64_lt (walk_time d) (f64_div_pos m 60) then f64_div_pos m 60 else walk_time d),
                   TRANSFERS_COLUMN_TIME := TDelta us)"
proof -
  from enrich_Inr[OF assms(1,3)] obtain df2 where d: "derived_times df = Inr df2"
    and nl: "filter too_long (rows df2) = []" and f: "floored_times df2 = Inr df'" by blast
  from floored_times_Inr[OF f assms(2)] obtain r2 x y us where r2: "r2 \<in> set (rows df2)"
    and x: "r2 TRANSFERS_COLUMN_TIME_MIN = Flt x" and y: "r2 TRANSFERS_COLUMN_MIN_TRANSFER_TIME_MIN = Flt y"
    and us: "timedelta_minutes (if f64_lt x y then y else x) = Inr us"
    and r': "r' = r2(TRANSFERS_COLUMN_TIME_MIN := Flt (if f64_lt x y then y else x),
                     TRANSFERS_COLUMN_TIME := TDelta us)" by blast
  from derived_times_Inr(5)[OF d r2] obtain r m dd where r: "r \<in> set (rows df)"
    and m: "r TRANSFERS_COLUMN_MIN_TRANSFER_TIME = Flt m" and dd: "r TRANSFERS_COLUMN_DISTANCE = Flt dd"
    and r2eq: "r2 = r(TRANSFERS_COLUMN_MIN_TRANSFER_TIME_MIN := Flt (f64_div_pos m 60),
                        TRANSFERS_COLUMN_TIME_MIN := Flt (walk_time dd))" by blast
  from x r2eq have xe: "x = walk_time dd" by simp
  from y r2eq have ye: "y = f64_div_pos m 60" by simp
  from nl r2 have "\<not> too_long r2" by (auto simp: filter_empty_conv)
  with x xe have ngt: "\<not> f64_gt (walk_time dd) (Fin 780)" by (simp add: too_long_def)
  have "r' = r(TRANSFERS_COLUMN_MIN_TRANSFER_TIME_MIN := Flt (f64_div_pos m 60),
                   TRANSFERS_COLUMN_TIME_MIN := Flt (if f64_lt (walk_time dd) (f64_div_pos m 60) then f64_div_pos m 60 else walk_time dd),
                   TRANSFERS_COLUMN_TIME := TDelta us)"
    unfolding r' r2eq xe ye by simp
  with r m dd ngt us xe ye show ?thesis by blast
qed

lemma Transfer_init_Inr:
  assumes "Transfer_init pf input_dir out_dir transfer_list w = (Inr t, w')"
  shows "\<exists>df df' l. joined_relation pf transfer_list (read_csv w (os_path_join input_dir INPUT_TRANSFERS_FILE)) = Inr df
           \<and> enrich df = (Inr df', l) \<and> heap w' (transfers_df t) = df' \<and> files w' = files w"
  using assms
  by (auto simp: Transfer_init_def alloc_def Let_def split: sum.splits prod.splits)

lemma transfer_dict_keys: "fst ` set (transfer_dict_of g) \<subseteq> set FIELD_NAMES"
  by (auto simp: transfer_dict_of_def split: option.splits)

lemma base_relation_no_dist:
  assumes "base_relation pf transfer_list = Inr b"
  shows "TRANSFERS_COLUMN_DISTANCE \<notin> set (columns b)"
proof (cases "transfer_list = []")
  case True
  with assms show ?thesis by (auto simp: base_relation_def DataFrame_empty_def)
next
  case False
  let ?d0 = "DataFrame_from_dicts (map transfer_dict_of transfer_list)"
  from False assms obtain d1 where
    1: "astype_float pf TRANSFERS_COLUMN_MIN_TRANSFER_TIME
          (replace_in_column TRANSFERS_COLUMN_MIN_TRANSFER_TIME (Str []) (Str ''0'') ?d0) = Inr d1"
    and 2: "loc_assign_ne TRANSFERS_COLUMN_TRANSFER_TYPE 2 TRANSFERS_COLUMN_MIN_TRANSFER_TIME (num 0) d1 = Inr b"
    by (auto simp: base_relation_def bindE_Inr Let_def)
  have c0: "set (columns ?d0) \<subseteq> set FIELD_NAMES"
    using transfer_dict_keys by (fastforce simp: DataFrame_from_dicts_def first_seen_def)
  from 1 have c1: "columns d1 = columns ?d0"
    by (auto simp: astype_float_def replace_in_column_def bindE_Inr split: if_splits)
  from 2 have "columns b = add_column TRANSFERS_COLUMN_MIN_TRANSFER_TIME (columns d1)"
    by (auto simp: loc_assign_ne_def split: if_splits)
  with c0 c1 have "set (columns b) \<subseteq> set FIELD_NAMES"
    by (auto simp: add_column_def FIELD_NAMES_def)
  then show ?thesis by (auto simp: FIELD_NAMES_def)
qed

lemma joined_relation_Inr:
  assumes "joined_relation pf transfer_list ft_read = Inr df"
  shows "\<exists>b ft j. base_relation pf transfer_list = Inr b \<and> ft_read = Inr ft
           \<and> join_supplemental b ft = Inr j
           \<and> df = assign_const TRANSFERS_COLUMN_PENALTY (num 1) j"
  using assms by (auto simp: joined_relation_def bindE_Inr)

lemma joined_min_transfer_time_not_missing:
  assumes j: "joined_relation pf transfer_list ft_read = Inr df"
    and cd: "TRANSFERS_COLUMN_DISTANCE \<in> set (columns df)"
    and cm: "TRANSFERS_COLUMN_MIN_TRANSFER_TIME \<in> set (columns df)"
    and r: "r \<in> set (rows df)"
  shows "r TRANSFERS_COLUMN_MIN_TRANSFER_TIME \<noteq> NA"
proof -
  from joined_relation_Inr[OF j] obtain b ft jn where b: "base_relation pf transfer_list = Inr b"
    and jn: "join_supplemental b ft = Inr jn"
    and df: "df = assign_const TRANSFERS_COLUMN_PENALTY (num 1) jn" by blast
  from df cd cm have cj: "TRANSFERS_COLUMN_DISTANCE \<in> set (columns jn)"
    "TRANSFERS_COLUMN_MIN_TRANSFER_TIME \<in> set (columns jn)"
    by (auto simp: assign_const_def add_column_def split: if_splits)
  from df r obtain rj where rj: "rj \<in> set (rows jn)" "r = rj(TRANSFERS_COLUMN_PENALTY := num 1)"
    by (auto simp: assign_const_def)
  have nb: "jn \<noteq> b" using base_relation_no_dist[OF b] cj(1) by auto
  with jn obtain m where
    jm: "jn = fillna_column TRANSFERS_COLUMN_TRANSFER_TYPE (num 0)
               (fillna_column TRANSFERS_COLUMN_MIN_TRANSFER_TIME (num 0) m)"
    by (auto simp: join_supplemental_def bindE_Inr split: if_splits)
  let ?m1 = "fillna_column TRANSFERS_COLUMN_MIN_TRANSFER_TIME (num 0) m"
  have cols: "columns jn = columns m" unfolding jm by (simp add: fillna_column_def)
  with cj(2) have "TRANSFERS_COLUMN_MIN_TRANSFER_TIME \<in> set (columns m)" by simp
  then have m1: "\<forall>r1 \<in> set (rows ?m1). r1 TRANSFERS_COLUMN_MIN_TRANSFER_TIME \<noteq> NA"
    by (auto simp: fillna_column_def isna_def)
  from rj(1) jm obtain r1 where "r1 \<in> set (rows ?m1)"
    "rj TRANSFERS_COLUMN_MIN_TRANSFER_TIME = r1 TRANSFERS_COLUMN_MIN_TRANSFER_TIME"
    by (auto simp: fillna_column_def[of TRANSFERS_COLUMN_TRANSFER_TYPE] split: if_splits)
  with m1 have "rj TRANSFERS_COLUMN_MIN_TRANSFER_TIME \<noteq> NA" by auto
  with rj(2) show ?thesis by simp
qed

lemma timedelta_finite: "timedelta_minutes x = Inr us \<Longrightarrow> \<exists>q. x = Fin q"
  by (cases x) (simp_all add: timedelta_minutes_def)

lemma f64_lt_irrefl: "\<not> f64_lt x x"
  by (cases x) simp_all

lemma f64_ge_floor:
  assumes "y \<noteq> NaN" and "(if f64_lt x y then y else x) \<noteq> NaN"
  shows "f64_ge (if f64_lt x y then y else x) y"
proof (cases "f64_lt x y")
  case True
  with assms(1) show ?thesis by (cases y) simp_all
next
  case False
  with assms show ?thesis by (cases x; cases y) simp_all
qed

lemma f64_div_pos_NaN: "f64_div_pos m k = NaN \<longleftrightarrow> m = NaN"
  by (cases m) simp_all

lemma loaded_rows:
  assumes "Transfer_init pf input_dir out_dir transfer_list w = (Inr t, w')"
    and "r \<in> set (rows (heap w' (transfers_df t)))"
  shows "\<exists>d m q us. r TRANSFERS_COLUMN_DISTANCE = Flt d \<and> r TRANSFERS_COLUMN_MIN_TRANSFER_TIME = Flt m
          \<and> m \<noteq> NaN \<and> \<not> f64_gt (walk_time d) (Fin 780)
          \<and> (if f64_lt (walk_time d) (f64_div_pos m 60) then f64_div_pos m 60 else walk_time d) = Fin q
          \<and> timedelta_minutes (Fin q) = Inr us
          \<and> r TRANSFERS_COLUMN_MIN_TRANSFER_TIME_MIN = Flt (f64_div_pos m 60)
          \<and> r TRANSFERS_COLUMN_TIME_MIN = Flt (Fin q)
          \<and> r TRANSFERS_COLUMN_TIME = TDelta us"
proof -
  from Transfer_init_Inr[OF assms(1)] obtain df df' l where
    j: "joined_relation pf transfer_list (read_csv w (os_path_join input_dir INPUT_TRANSFERS_FILE)) = Inr df"
    and e: "enrich df = (Inr df', l)" and h: "heap w' (transfers_df t) = df'" by blast
  from assms(2) h have r: "r \<in> set (rows df')" by simp
  have ne: "rows df \<noteq> []"
  proof
    assume "rows df = []"
    from enrich_empty[OF this] e r \<open>rows df = []\<close> show False by simp
  qed
  from enrich_Inr[OF e ne] obtain df2 where d2: "derived_times df = Inr df2" by blast
  from enrich_rows[OF e r ne] obtain r0 m d us where r0: "r0 \<in> set (rows df)"
    and m: "r0 TRANSFERS_COLUMN_MIN_TRANSFER_TIME = Flt m" and d: "r0 TRANSFERS_COLUMN_DISTANCE = Flt d"
    and ngt: "\<not> f64_gt (walk_time d) (Fin 780)"
    and us: "timedelta_minutes (if f64_lt (walk_time d) (f64_div_pos m 60) then f64_div_pos m 60 else walk_time d) = Inr us"
    and req: "r = r0(TRANSFERS_COLUMN_MIN_TRANSFER_TIME_MIN := Flt (f64_div_pos m 60),
                   TRANSFERS_COLUMN_TIME_MIN := Flt (if f64_lt (walk_time d) (f64_div_pos m 60) then f64_div_pos m 60 else walk_time d),
                   TRANSFERS_COLUMN_TIME := TDelta us)"
    by blast
  from joined_min_transfer_time_not_missing[OF j derived_times_Inr(2)[OF d2] derived_times_Inr(1)[OF d2] r0] m
  have mn: "m \<noteq> NaN" by simp
  from timedelta_finite[OF us] obtain q where
    q: "(if f64_lt (walk_time d) (f64_div_pos m 60) then f64_div_pos m 60 else walk_time d) = Fin q" by blast
  have "r TRANSFERS_COLUMN_DISTANCE = Flt d" "r TRANSFERS_COLUMN_MIN_TRANSFER_TIME = Flt m"
    "r TRANSFERS_COLUMN_MIN_TRANSFER_TIME_MIN = Flt (f64_div_pos m 60)"
    "r TRANSFERS_COLUMN_TIME_MIN = Flt (Fin q)" "r TRANSFERS_COLUMN_TIME = TDelta us"
    unfolding req using m d q by simp_all
  with mn ngt q us show ?thesis by auto
qed

lemma map_of_map_key:
  "distinct (map f xs) \<Longrightarrow> c \<in> set xs \<Longrightarrow> map_of (map (\<lambda>c. (f c, g c)) xs) (f c) = Some (g c)"
proof (induction xs)
  case Nil
  then show ?case by simp
next
  case (Cons a xs)
  show ?case
  proof (cases "c = a")
    case True
    then show ?thesis by simp
  next
    case False
    with Cons.prems have c: "c \<in> set xs" and "f a \<notin> f ` set xs" by auto
    then have "f c \<noteq> f a" by (metis imageI)
    with Cons c show ?thesis by simp
  qed
qed

lemma map_of_map_None:
  "n \<notin> f ` set xs \<Longrightarrow> map_of (map (\<lambda>c. (f c, g c)) xs) n = None"
  by (induction xs) auto

lemma join_row_right:
  assumes "distinct (merged_columns left right keys)"
    and "c \<in> set (columns right)" and "c \<notin> set keys"
  shows "join_row left right keys lr rr (suffixed (merge_overlap left right keys) ''_y'' c) = rr c"
proof -
  let ?ov = "merge_overlap left right keys"
  from assms(2,3) have c: "c \<in> set (right_only_columns right keys)"
    by (simp add: right_only_columns_def)
  from assms(1) have dl: "distinct (map (suffixed ?ov ''_y'') (right_only_columns right keys))"
    and dj: "set (map (suffixed ?ov ''_x'') (columns left))
               \<inter> set (map (suffixed ?ov ''_y'') (right_only_columns right keys)) = {}"
    by (simp_all add: merged_columns_def)
  from dj c have "suffixed ?ov ''_y'' c \<notin> suffixed ?ov ''_x'' ` set (columns left)" by auto
  from map_of_map_None[OF this]
  have "map_of (map (\<lambda>c. (suffixed ?ov ''_x'' c, if c \<in> set keys then rr c else lr c)) (columns left))
          (suffixed ?ov ''_y'' c) = None" .
  moreover from map_of_map_key[OF dl c]
  have "map_of (map (\<lambda>c. (suffixed ?ov ''_y'' c, rr c)) (right_only_columns right keys))
          (suffixed ?ov ''_y'' c) = Some (rr c)" .
  ultimately show ?thesis by (simp add: join_row_def mk_row_def map_add_def)
qed

lemma join_row_key:
  assumes "distinct (merged_columns left right keys)"
    and "k \<in> set keys" and "k \<in> set (columns left)"
  shows "join_row left right keys lr rr k = rr k"
proof -
  let ?ov = "merge_overlap left right keys"
  from assms(2) have s: "suffixed ?ov ''_x'' k = k" by (simp add: suffixed_def merge_overlap_def)
  from assms(1) have dl: "distinct (map (suffixed ?ov ''_x'') (columns left))"
    by (simp add: merged_columns_def)
  from map_of_map_key[OF dl assms(3), of "\<lambda>c. if c \<in> set keys then rr c else lr c"] assms(2) s
  have "map_of (map (\<lambda>c. (suffixed ?ov ''_x'' c, if c \<in> set keys then rr c else lr c)) (columns left)) k
          = Some (rr k)" by simp
  then show ?thesis by (simp add: join_row_def mk_row_def map_add_def)
qed

lemma merge_right_Inr:
  assumes "merge_right left right keys = Inr j"
  shows "set keys \<subseteq> set (columns left)" and "distinct (merged_columns left right keys)"
    and "rows j = concat (map (joined_rows left right keys) (rows right))"
  using assms
  by (auto simp: merge_right_def find_None_iff split: option.splits if_splits)

lemma supplemental_part_join_row:
  assumes "set keys \<subseteq> set (columns left)" and "distinct (merged_columns left right keys)"
  shows "supplemental_part left right keys (join_row left right keys lr rr) = map rr (columns right)"
  unfolding supplemental_part_def
proof (rule map_cong[OF refl])
  fix c assume c: "c \<in> set (columns right)"
  show "join_row left right keys lr rr
          (if c \<in> set keys then c else suffixed (merge_overlap left right keys) ''_y'' c) = rr c"
  proof (cases "c \<in> set keys")
    case True
    with assms(1) have "c \<in> set (columns left)" by auto
    from join_row_key[OF assms(2) True this] True show ?thesis by simp
  next
    case False
    from join_row_right[OF assms(2) c False] False show ?thesis by simp
  qed
qed

lemma supplemental_part_joined_rows:
  assumes "set keys \<subseteq> set (columns left)" and "distinct (merged_columns left right keys)"
  shows "map (supplemental_part left right keys) (joined_rows left right keys rr)
         = replicate (max 1 (length (matching_rows keys (rows left) rr))) (map rr (columns right))"
proof (cases "matching_rows keys (rows left) rr")
  case Nil
  then show ?thesis
    by (simp add: joined_rows_def supplemental_part_join_row[OF assms])
next
  case (Cons m ms)
  have "map (supplemental_part left right keys) (map (\<lambda>lr. join_row left right keys lr rr) (m # ms))
        = map (\<lambda>_. map rr (columns right)) (m # ms)"
    by (simp add: supplemental_part_join_row[OF assms])
  also have "\<dots> = replicate (length (m # ms)) (map rr (columns right))"
    by (rule map_replicate_const)
  finally show ?thesis using Cons by (simp add: joined_rows_def)
qed

lemma loaded_column_row:
  assumes "map_sum id (column_values c) (loaded_relation T) = Inr [v]"
  shows "\<exists>t w' r. T = (Inr t, w') \<and> r \<in> set (rows (heap w' (transfers_df t))) \<and> r c = v"
proof -
  obtain res w' where T: "T = (res, w')" by (cases T)
  with assms obtain t where t: "res = Inr t" and cv: "column_values c (heap w' (transfers_df t)) = [v]"
    by (cases res) (auto simp: loaded_relation_def)
  from cv obtain r where "r \<in> set (rows (heap w' (transfers_df t)))" "r c = v"
    by (auto simp: column_values_def map_eq_Cons_conv)
  with T t show ?thesis by blast
qed

lemma numeric_column_cell:
  "numeric_column c df \<Longrightarrow> r \<in> set (rows df) \<Longrightarrow> \<exists>x. r c = Flt x"
  by (cases "r c") (auto simp: numeric_column_def list_all_iff)

lemma mapE_total:
  "(\<And>x. x \<in> set xs \<Longrightarrow> \<exists>y. f x = Inr y) \<Longrightarrow> \<exists>ys. mapE f xs = Inr ys"
proof (induction xs)
  case Nil
  then show ?case by simp
next
  case (Cons a xs)
  from Cons.prems[of a] obtain y where y: "f a = Inr y" by auto
  from Cons.IH Cons.prems obtain ys where "mapE f xs = Inr ys" by auto
  with y show ?case by simp
qed

lemma assign_map_ok:
  assumes "numeric_column src df"
  shows "\<exists>d. assign_map dst src f df = Inr d"
proof -
  have "\<exists>rs. mapE (\<lambda>r. bindE (as_float (r src)) (\<lambda>x. Inr (r(dst := Flt (f x))))) (rows df) = Inr rs"
  proof (rule mapE_total)
    fix r assume "r \<in> set (rows df)"
    from numeric_column_cell[OF assms this] obtain x where "r src = Flt x" ..
    then show "\<exists>y. bindE (as_float (r src)) (\<lambda>x. Inr (r(dst := Flt (f x)))) = Inr y"
      by (simp add: bindE_def as_float_def)
  qed
  with assms show ?thesis by (auto simp: assign_map_def numeric_column_def bindE_def)
qed

lemma derived_times_ok:
  assumes m: "numeric_column TRANSFERS_COLUMN_MIN_TRANSFER_TIME df"
    and d: "numeric_column TRANSFERS_COLUMN_DISTANCE df"
  shows "\<exists>df2. derived_times df = Inr df2"
proof -
  from assign_map_ok[OF m] obtain df1 where
    1: "assign_map TRANSFERS_COLUMN_MIN_TRANSFER_TIME_MIN TRANSFERS_COLUMN_MIN_TRANSFER_TIME
              (\<lambda>x. f64_div_pos x 60) df = Inr df1" by blast
  have "numeric_column TRANSFERS_COLUMN_DISTANCE df1"
    unfolding numeric_column_def list_all_iff
  proof (intro conjI ballI)
    from d assign_map_Inr(2)[OF 1] show "TRANSFERS_COLUMN_DISTANCE \<in> set (columns df1)"
      by (simp add: numeric_column_def add_column_def)
  next
    fix r1 assume "r1 \<in> set (rows df1)"
    from assign_map_Inr(4)[OF 1 this] obtain r x where r: "r \<in> set (rows df)"
      and r1: "r1 = r(TRANSFERS_COLUMN_MIN_TRANSFER_TIME_MIN := Flt (f64_div_pos x 60))" by blast
    from numeric_column_cell[OF d r] obtain y where "r TRANSFERS_COLUMN_DISTANCE = Flt y" ..
    with r1 show "case r1 TRANSFERS_COLUMN_DISTANCE of Flt _ \<Rightarrow> True | Str _ \<Rightarrow> False | TDelta _ \<Rightarrow> False"
      by simp
  qed
  from assign_map_ok[OF this] obtain df2 where
    "assign_map TRANSFERS_COLUMN_TIME_MIN TRANSFERS_COLUMN_DISTANCE walk_time df1 = Inr df2" by blast
  with 1 show ?thesis by (simp add: derived_times_def bindE_def)
qed

lemma fillna_column_rows:
  "rows (fillna_column c v df)
   = map (\<lambda>r. if c \<in> set (columns df) \<and> isna (r c) then r(c := v) else r) (rows df)"
  by (simp add: fillna_column_def)

lemma fillna_column_columns: "columns (fillna_column c v df) = columns df"
  by (simp add: fillna_column_def)

lemma merge_right_columns:
  "merge_right left right keys = Inr j \<Longrightarrow> columns j = merged_columns left right keys"
  by (auto simp: merge_right_def split: option.splits if_splits)





lemma to_float_Inr: "to_float pf c = Inr v \<Longrightarrow> \<exists>x. v = Flt x"
  by (cases c) (auto simp: to_float_def split: option.splits)

lemma numeric_columnI:
  "c \<in> set (columns df) \<Longrightarrow> (\<And>r. r \<in> set (rows df) \<Longrightarrow> \<exists>x. r c = Flt x) \<Longrightarrow> numeric_column c df"
  by (fastforce simp: numeric_column_def list_all_iff)

lemma base_relation_numeric:
  assumes b: "base_relation pf transfer_list = Inr b" and ne: "transfer_list \<noteq> []"
  shows "numeric_column TRANSFERS_COLUMN_MIN_TRANSFER_TIME b"
proof -
  let ?d0 = "replace_in_column TRANSFERS_COLUMN_MIN_TRANSFER_TIME (Str []) (Str ''0'')
               (DataFrame_from_dicts (map transfer_dict_of transfer_list))"
  from b ne obtain d1 where
    1: "astype_float pf TRANSFERS_COLUMN_MIN_TRANSFER_TIME ?d0 = Inr d1"
    and 2: "loc_assign_ne TRANSFERS_COLUMN_TRANSFER_TYPE 2 TRANSFERS_COLUMN_MIN_TRANSFER_TIME (num 0) d1 = Inr b"
    by (auto simp: base_relation_def bindE_Inr Let_def)
  from 1 obtain rs where
    m: "mapE (\<lambda>r. bindE (to_float pf (r TRANSFERS_COLUMN_MIN_TRANSFER_TIME))
                     (\<lambda>v. Inr (r(TRANSFERS_COLUMN_MIN_TRANSFER_TIME := v)))) (rows ?d0) = Inr rs"
    and d1: "rows d1 = rs"
    by (auto simp: astype_float_def bindE_Inr split: if_splits)
  have n1: "\<exists>x. r1 TRANSFERS_COLUMN_MIN_TRANSFER_TIME = Flt x" if "r1 \<in> set (rows d1)" for r1
  proof -
    from that d1 have "r1 \<in> set rs" by simp
    from mapE_back[OF m this] obtain r v where "to_float pf (r TRANSFERS_COLUMN_MIN_TRANSFER_TIME) = Inr v"
      "r1 = r(TRANSFERS_COLUMN_MIN_TRANSFER_TIME := v)"
      by (auto simp: bindE_Inr)
    with to_float_Inr show ?thesis by fastforce
  qed
  from 2 have cb: "columns b = add_column TRANSFERS_COLUMN_MIN_TRANSFER_TIME (columns d1)"
    and rb: "rows b = map (\<lambda>r. if r TRANSFERS_COLUMN_TRANSFER_TYPE \<noteq> num 2
                                then r(TRANSFERS_COLUMN_MIN_TRANSFER_TIME := num 0) else r) (rows d1)"
    by (auto simp: loc_assign_ne_def split: if_splits)
  show ?thesis
  proof (rule numeric_columnI)
    show "TRANSFERS_COLUMN_MIN_TRANSFER_TIME \<in> set (columns b)" unfolding cb by (simp add: add_column_def)
  next
    fix r assume "r \<in> set (rows b)"
    with rb obtain r1 where r1: "r1 \<in> set (rows d1)"
      and r: "r = (if r1 TRANSFERS_COLUMN_TRANSFER_TYPE \<noteq> num 2
                   then r1(TRANSFERS_COLUMN_MIN_TRANSFER_TIME := num 0) else r1)" by auto
    from n1[OF r1] r show "\<exists>x. r TRANSFERS_COLUMN_MIN_TRANSFER_TIME = Flt x" by auto
  qed
qed

lemma join_row_left:
  assumes "distinct (merged_columns left right keys)"
    and "c \<in> set (columns left)" and "c \<notin> set keys" and "c \<notin> set (columns right)"
  shows "join_row left right keys lr rr c = lr c"
proof -
  let ?ov = "merge_overlap left right keys"
  from assms(4) have s: "suffixed ?ov ''_x'' c = c" by (simp add: suffixed_def merge_overlap_def)
  from assms(1) have dl: "distinct (map (suffixed ?ov ''_x'') (columns left))"
    by (simp add: merged_columns_def)
  from map_of_map_key[OF dl assms(2), of "\<lambda>c. if c \<in> set keys then rr c else lr c"] assms(3) s
  have "map_of (map (\<lambda>c. (suffixed ?ov ''_x'' c, if c \<in> set keys then rr c else lr c)) (columns left)) c
          = Some (lr c)" by simp
  then show ?thesis by (simp add: join_row_def mk_row_def map_add_def)
qed

lemma joined_rows_from:
  assumes "r \<in> set (joined_rows left right keys rr)"
  shows "\<exists>lr. (lr = (\<lambda>_. NA) \<or> lr \<in> set (rows left)) \<and> r = join_row left right keys lr rr"
proof (cases "matching_rows keys (rows left) rr")
  case Nil
  with assms show ?thesis by (auto simp: joined_rows_def)
next
  case (Cons x xs)
  with assms obtain lr where lr: "lr \<in> set (x # xs)" and r: "r = join_row left right keys lr rr"
    by (auto simp: joined_rows_def)
  from lr Cons have "lr \<in> set (matching_rows keys (rows left) rr)" by simp
  then have "lr \<in> set (rows left)" by (simp add: matching_rows_def)
  with r show ?thesis by blast
qed

lemma joined_min_transfer_time_numeric:
  assumes j: "joined_relation pf transfer_list ft_read = Inr df"
    and ne: "transfer_list \<noteq> []"
    and ft: "ft_read = Inr transfers_ft_df" and rows: "rows transfers_ft_df \<noteq> []"
    and nc: "TRANSFERS_COLUMN_MIN_TRANSFER_TIME \<notin> set (columns transfers_ft_df)"
  shows "numeric_column TRANSFERS_COLUMN_MIN_TRANSFER_TIME df"
proof -
  let ?keys = "[TRANSFERS_COLUMN_FROM_STOP, TRANSFERS_COLUMN_TO_STOP]"
  let ?M = TRANSFERS_COLUMN_MIN_TRANSFER_TIME
  from joined_relation_Inr[OF j] ft obtain b jn where b: "base_relation pf transfer_list = Inr b"
    and jn: "join_supplemental b transfers_ft_df = Inr jn"
    and df: "df = assign_const TRANSFERS_COLUMN_PENALTY (num 1) jn" by auto
  from jn rows obtain m where m: "merge_right b transfers_ft_df ?keys = Inr m"
    and jm: "jn = fillna_column TRANSFERS_COLUMN_TRANSFER_TYPE (num 0) (fillna_column ?M (num 0) m)"
    by (auto simp: join_supplemental_def bindE_Inr)
  note nb = base_relation_numeric[OF b ne]
  note mr = merge_right_Inr[OF m] and mc = merge_right_columns[OF m]
  from nb have cb: "?M \<in> set (columns b)" by (simp add: numeric_column_def)
  have sx: "suffixed (merge_overlap b transfers_ft_df ?keys) ''_x'' ?M = ?M"
    using nc by (simp add: suffixed_def merge_overlap_def)
  from cb have "suffixed (merge_overlap b transfers_ft_df ?keys) ''_x'' ?M
                  \<in> suffixed (merge_overlap b transfers_ft_df ?keys) ''_x'' ` set (columns b)"
    by (rule imageI)
  with sx have cm: "?M \<in> set (columns m)" unfolding mc by (simp add: merged_columns_def)
  have nm: "\<exists>x. r ?M = Flt x" if "r \<in> set (rows m)" for r
  proof -
    from that mr(3) obtain rr where "r \<in> set (joined_rows b transfers_ft_df ?keys rr)" by auto
    from joined_rows_from[OF this] obtain lr where lr: "lr = (\<lambda>_. NA) \<or> lr \<in> set (rows b)"
      and r: "r = join_row b transfers_ft_df ?keys lr rr" by blast
    from join_row_left[OF mr(2) cb _ nc] r have "r ?M = lr ?M" by simp
    with lr numeric_column_cell[OF nb] show ?thesis by auto
  qed
  have "columns df = add_column TRANSFERS_COLUMN_PENALTY (columns m)"
    unfolding df jm by (simp add: assign_const_def fillna_column_columns)
  with cm have cdf: "?M \<in> set (columns df)" by (simp add: add_column_def)
  show ?thesis
  proof (rule numeric_columnI[OF cdf])
    fix r assume "r \<in> set (rows df)"
    then obtain r0 where r0: "r0 \<in> set (rows m)" and
      r: "r ?M = (if isna (r0 ?M) then num 0 else r0 ?M)"
      unfolding df jm using cm
      by (auto simp: assign_const_def fillna_column_rows fillna_column_columns)
    from nm[OF r0] r show "\<exists>x. r ?M = Flt x" by auto
  qed
qed

lemmas ex_defs = ex_gtfs_transfer_def ex_ft_row_def ex_ft_def ex_input_world_def ex_float_def
  ex_ft_with_types_def ex_ft_typed_row_def ex_ft_without_def

lemmas load_defs = Transfer_init_def joined_relation_def base_relation_def transfer_dict_of_def FIELD_NAMES_def
  DataFrame_from_dicts_def DataFrame_empty_def first_seen_def replace_in_column_def astype_float_def bindE_def
  to_float_def loc_assign_ne_def add_column_def read_csv_def os_path_join_def verify_required_columns_def
  required_columns_def join_supplemental_def merge_right_def merged_columns_def merge_overlap_def suffixed_def
  right_only_columns_def joined_rows_def matching_rows_def same_key_def join_row_def mk_row_def
  fillna_column_def isna_def assign_const_def enrich_def derived_times_def assign_map_def as_float_def
  walk_time_def loc_gt_def f64_gt_def floored_times_def floor_column_def assign_timedelta_def
  timedelta_minutes_def round_half_even_def alloc_def column_values_def loaded_relation_def logged_rows_def
  numeric_column_def

lemma ex_floor_load:
  "map_sum id (column_values TRANSFERS_COLUMN_TIME_MIN)
     (loaded_relation (Transfer_init ex_float ''in'' ''out'' [ex_gtfs_transfer ''A'' ''B'' 2 ''300'']
        (ex_input_world (ex_ft [ex_ft_row ''A'' ''B'' (1/10)])))) = Inr [num 5]"
  by (simp add: load_defs ex_defs)

lemma ex_happy_load:
  "map_sum id (column_values TRANSFERS_COLUMN_TIME_MIN)
     (loaded_relation (Transfer_init ex_float ''in'' ''out'' [ex_gtfs_transfer ''A'' ''B'' 0 []]
        (ex_input_world (ex_ft [ex_ft_row ''A'' ''B'' (1/2)])))) = Inr [num 10]"
  by (simp add: load_defs ex_defs)

section \<open>The claims about the load\<close>

text \<open>
  C1, as amended. Provided the relation after the join has the columns
  min_transfer_time and dist and both hold numbers, when one of its rows has a
  distance whose walk time \<open>dist * 60 / 3\<close> is above 780 minutes the constructor
  raises NetworkInputError naming \<^verbatim>\<open>transfers_ft.txt\<close>. Before that it logs, at
  level fatal, the message with the number of offending rows and the number of all
  rows, and then the first five offending rows (\<^verbatim>\<open>head()\<close>), not all of them. The
  world it leaves differs from the one it found in the log only: no file is
  written, and no Transfer object results. By lemma
  \<open>joined_min_transfer_time_numeric\<close> the column min_transfer_time is there and
  numeric whenever the base feed has transfers and the supplemental file has rows
  and no column of that name. What the constructor does when the relation lacks
  the column is not part of this statement.
\<close>

theorem excessive_walk_time_aborts_load:
  assumes j: "joined_relation pf transfer_list (read_csv w (os_path_join input_dir INPUT_TRANSFERS_FILE)) = Inr df"
    and nm: "numeric_column TRANSFERS_COLUMN_MIN_TRANSFER_TIME df"
    and nd: "numeric_column TRANSFERS_COLUMN_DISTANCE df"
    and r: "r \<in> set (rows df)" "r TRANSFERS_COLUMN_DISTANCE = Flt miles"
      "f64_gt (walk_time miles) (Fin 780)"
  shows "\<exists>df2. derived_times df = Inr df2
     \<and> length (rows df2) = length (rows df)
     \<and> 0 < length (filter too_long (rows df2))
     \<and> Transfer_init pf input_dir out_dir transfer_list w =
      (Inl (NetworkInputError INPUT_TRANSFERS_FILE
              (error_msg (length (filter too_long (rows df2))) (length (rows df2)))),
       w\<lparr>log := log w @
            [(DEBUG, [Text ''=========== TRANSFERS ===========\<newline>'', Frame (take 5 (rows df))]),
             (DEBUG, [Text ''\<newline>'', DTypes (columns df)]),
             (FATAL, [Text (error_msg (length (filter too_long (rows df2))) (length (rows df2)))]),
             (FATAL, [Text ''\<newline>'', Frame (take 5 (filter too_long (rows df2))), Text ''\<newline>''])]\<rparr>)"
proof -
  from derived_times_ok[OF nm nd] obtain df2 where d: "derived_times df = Inr df2" ..
  from derived_times_Inr(6)[OF d r(1)] r(2) obtain m where
    r2: "r(TRANSFERS_COLUMN_MIN_TRANSFER_TIME_MIN := Flt (f64_div_pos m 60),
           TRANSFERS_COLUMN_TIME_MIN := Flt (walk_time miles)) \<in> set (rows df2)" (is "?r2 \<in> _")
    by auto
  have "too_long ?r2" using r(3) by (simp add: too_long_def)
  with r2 have ne: "filter too_long (rows df2) \<noteq> []" by (auto simp: filter_empty_conv)
  from r(1) have "rows df \<noteq> []" by auto
  from enrich_too_long[OF d this ne] j ne
  have "Transfer_init pf input_dir out_dir transfer_list w =
      (Inl (NetworkInputError INPUT_TRANSFERS_FILE
              (error_msg (length (filter too_long (rows df2))) (length (rows df2)))),
       w\<lparr>log := log w @
            [(DEBUG, [Text ''=========== TRANSFERS ===========\<newline>'', Frame (take 5 (rows df))]),
             (DEBUG, [Text ''\<newline>'', DTypes (columns df)]),
             (FATAL, [Text (error_msg (length (filter too_long (rows df2))) (length (rows df2)))]),
             (FATAL, [Text ''\<newline>'', Frame (take 5 (filter too_long (rows df2))), Text ''\<newline>''])]\<rparr>)"
    by (simp add: Transfer_init_def)
  with d ne derived_times_Inr(4)[OF d] show ?thesis by auto
qed

theorem excessive_walk_time_aborts_load_witness:
  "f64_gt (walk_time (Fin 1000)) (Fin 780)
   \<and> fst (Transfer_init ex_float ''in'' ''out'' [ex_gtfs_transfer ''A'' ''B'' 0 []]
                 (ex_input_world (ex_ft [ex_ft_row ''A'' ''B'' 1000])))
           = Inl (NetworkInputError ''transfers_ft.txt'' (error_msg 1 1))
   \<and> files (snd (Transfer_init ex_float ''in'' ''out'' [ex_gtfs_transfer ''A'' ''B'' 0 []]
                 (ex_input_world (ex_ft [ex_ft_row ''A'' ''B'' 1000])))) = Map.empty"
proof -
  let ?w = "ex_input_world (ex_ft [ex_ft_row ''A'' ''B'' 1000])"
  let ?j = "joined_relation ex_float [ex_gtfs_transfer ''A'' ''B'' 0 []]
              (read_csv ?w (os_path_join ''in'' INPUT_TRANSFERS_FILE))"
  have 1: "map_sum id (\<lambda>df. (column_values TRANSFERS_COLUMN_DISTANCE df,
                              numeric_column TRANSFERS_COLUMN_MIN_TRANSFER_TIME df,
                              numeric_column TRANSFERS_COLUMN_DISTANCE df)) ?j
           = Inr ([num 1000], True, True)"
    by (simp add: load_defs ex_defs)
  then obtain df where j: "?j = Inr df" and cv: "column_values TRANSFERS_COLUMN_DISTANCE df = [num 1000]"
    and nm: "numeric_column TRANSFERS_COLUMN_MIN_TRANSFER_TIME df"
    and nd: "numeric_column TRANSFERS_COLUMN_DISTANCE df"
    by (cases ?j) auto
  from cv obtain r where r: "r \<in> set (rows df)" "r TRANSFERS_COLUMN_DISTANCE = Flt (Fin 1000)"
    and len: "length (rows df) = 1"
    by (auto simp: column_values_def map_eq_Cons_conv)
  have g: "f64_gt (walk_time (Fin 1000)) (Fin 780)" by (simp add: walk_time_def f64_gt_def)
  from excessive_walk_time_aborts_load[OF j nm nd r g, of "''out''"] obtain df2 where
    c: "derived_times df = Inr df2
     \<and> length (rows df2) = length (rows df)
     \<and> 0 < length (filter too_long (rows df2))
     \<and> Transfer_init ex_float ''in'' ''out'' [ex_gtfs_transfer ''A'' ''B'' 0 []] ?w =
      (Inl (NetworkInputError INPUT_TRANSFERS_FILE
              (error_msg (length (filter too_long (rows df2))) (length (rows df2)))),
       ?w\<lparr>log := log ?w @
            [(DEBUG, [Text ''=========== TRANSFERS ===========\<newline>'', Frame (take 5 (rows df))]),
             (DEBUG, [Text ''\<newline>'', DTypes (columns df)]),
             (FATAL, [Text (error_msg (length (filter too_long (rows df2))) (length (rows df2)))]),
             (FATAL, [Text ''\<newline>'', Frame (take 5 (filter too_long (rows df2))), Text ''\<newline>''])]\<rparr>)" ..
  from c have l2: "length (rows df2) = length (rows df)" and p: "0 < length (filter too_long (rows df2))"
    by simp_all
  have "length (filter too_long (rows df2)) \<le> length (rows df2)" by simp
  with p l2 len have n: "length (filter too_long (rows df2)) = 1" "length (rows df2) = 1" by linarith+
  from c have "Transfer_init ex_float ''in'' ''out'' [ex_gtfs_transfer ''A'' ''B'' 0 []] ?w =
      (Inl (NetworkInputError INPUT_TRANSFERS_FILE (error_msg 1 1)),
       ?w\<lparr>log := log ?w @
            [(DEBUG, [Text ''=========== TRANSFERS ===========\<newline>'', Frame (take 5 (rows df))]),
             (DEBUG, [Text ''\<newline>'', DTypes (columns df)]),
             (FATAL, [Text (error_msg 1 1)]),
             (FATAL, [Text ''\<newline>'', Frame (take 5 (filter too_long (rows df2))), Text ''\<newline>''])]\<rparr>)"
    unfolding n by (elim conjE)
  with g show ?thesis by (simp add: ex_input_world_def)
qed

text \<open>With an empty base feed and a supplemental file of the six required columns
  the relation has no column min_transfer_time: a row of 1000 miles ends in the
  KeyError of line 164, before the check of line 172. With six offending rows the
  message counts six and five rows are logged.\<close>

theorem excessive_walk_time_counterexample:
  "f64_gt (walk_time (Fin 1000)) (Fin 780)
   \<and> fst (Transfer_init ex_float ''in'' ''out'' []
            (ex_input_world (ex_ft [ex_ft_row ''A'' ''B'' 1000])))
     = Inl (KeyError ''min_transfer_time'')
   \<and> fst (Transfer_init ex_float ''in'' ''out'' [ex_gtfs_transfer ''A'' ''B'' 0 []]
      (ex_input_world (ex_ft (map (\<lambda>b. ex_ft_row ''A'' b 1000) [''B'', ''C'', ''D'', ''E'', ''F'', ''G'']))))
     = Inl (NetworkInputError ''transfers_ft.txt''
         ''Found 6 excessively long transfer links out of 6 total transfer links. Expected distances are in miles. Unit problem?'')
   \<and> length (logged_rows FATAL (log (snd (Transfer_init ex_float ''in'' ''out'' [ex_gtfs_transfer ''A'' ''B'' 0 []]
      (ex_input_world (ex_ft (map (\<lambda>b. ex_ft_row ''A'' b 1000) [''B'', ''C'', ''D'', ''E'', ''F'', ''G''])))))))
     = 5"
  by (simp add: load_defs ex_defs error_msg_def str_nat.simps)

text \<open>
  C2, as amended. For every link of the relation a successful load leaves, the walk
  time derived from the distance is at most 780 minutes; the final time_min, after
  the floor, is at most 780 or equals min_transfer_time_min. The sanity check of
  line 172 runs before the floor of lines 180 to 182.
\<close>

theorem distance_walk_time_is_bounded:
  assumes "Transfer_init pf input_dir out_dir transfer_list w = (Inr t, w')"
    and "r \<in> set (rows (heap w' (transfers_df t)))"
  shows "\<exists>d. r TRANSFERS_COLUMN_DISTANCE = Flt d \<and> f64_le (walk_time d) (Fin 780)
           \<and> (cell_le (r TRANSFERS_COLUMN_TIME_MIN) (num 780)
                \<or> r TRANSFERS_COLUMN_TIME_MIN = r TRANSFERS_COLUMN_MIN_TRANSFER_TIME_MIN)"
proof -
  from loaded_rows[OF assms] obtain d m q where d: "r TRANSFERS_COLUMN_DISTANCE = Flt d"
    and ngt: "\<not> f64_gt (walk_time d) (Fin 780)"
    and z: "(if f64_lt (walk_time d) (f64_div_pos m 60) then f64_div_pos m 60 else walk_time d) = Fin q"
    and y: "r TRANSFERS_COLUMN_MIN_TRANSFER_TIME_MIN = Flt (f64_div_pos m 60)"
    and x: "r TRANSFERS_COLUMN_TIME_MIN = Flt (Fin q)"
    by blast
  have nn: "walk_time d \<noteq> NaN"
  proof
    assume "walk_time d = NaN"
    with z show False by simp
  qed
  with ngt have le: "f64_le (walk_time d) (Fin 780)"
    by (cases "walk_time d") (simp_all add: f64_le_def f64_gt_def)
  have "cell_le (r TRANSFERS_COLUMN_TIME_MIN) (num 780)
          \<or> r TRANSFERS_COLUMN_TIME_MIN = r TRANSFERS_COLUMN_MIN_TRANSFER_TIME_MIN"
  proof (cases "f64_lt (walk_time d) (f64_div_pos m 60)")
    case True
    with z x y show ?thesis by simp
  next
    case False
    with z have "walk_time d = Fin q" by simp
    with le x show ?thesis by (simp add: cell_le_def cell_ge_def f64_le_def)
  qed
  with d le show ?thesis by blast
qed

theorem distance_walk_time_is_bounded_witness:
  "\<exists>t w' r. Transfer_init ex_float ''in'' ''out'' [ex_gtfs_transfer ''A'' ''B'' 0 []]
                (ex_input_world (ex_ft [ex_ft_row ''A'' ''B'' (1/2)])) = (Inr t, w')
      \<and> r \<in> set (rows (heap w' (transfers_df t)))
      \<and> r TRANSFERS_COLUMN_TIME_MIN = num 10
      \<and> (\<exists>d. r TRANSFERS_COLUMN_DISTANCE = Flt d \<and> f64_le (walk_time d) (Fin 780))"
proof -
  from loaded_column_row[OF ex_happy_load] obtain t w' r where
    T: "Transfer_init ex_float ''in'' ''out'' [ex_gtfs_transfer ''A'' ''B'' 0 []]
                (ex_input_world (ex_ft [ex_ft_row ''A'' ''B'' (1/2)])) = (Inr t, w')"
    and r: "r \<in> set (rows (heap w' (transfers_df t)))" and v: "r TRANSFERS_COLUMN_TIME_MIN = num 10"
    by blast
  from distance_walk_time_is_bounded[OF T r] T r v show ?thesis by blast
qed

text \<open>A minimum transfer time of 60000 seconds floors a walk of 10 minutes to 1000.\<close>

theorem walk_time_bound_counterexample:
  "map_sum id (column_values TRANSFERS_COLUMN_TIME_MIN)
     (loaded_relation (Transfer_init ex_float ''in'' ''out'' [ex_gtfs_transfer ''A'' ''B'' 2 ''60000'']
        (ex_input_world (ex_ft [ex_ft_row ''A'' ''B'' (1/2)])))) = Inr [num 1000]
   \<and> \<not> cell_le (num 1000) (num 780)"
  by (simp add: load_defs ex_defs cell_le_def cell_ge_def)




text \<open>
  C4. The claim: after the load, min_transfer_time is 0 on every row whose
  transfer_type is not 2. Lines 117 to 119 enforce it on the rows of the base feed
  only. With an empty base feed and a supplemental file that brings the columns
  transfer_type and min_transfer_time, the load succeeds and keeps a row of
  transfer_type 0 with min_transfer_time 300.
\<close>

theorem supplemental_min_transfer_time_is_not_zeroed:
  "map_sum id (\<lambda>df. zip (column_values TRANSFERS_COLUMN_TRANSFER_TYPE df)
                         (column_values TRANSFERS_COLUMN_MIN_TRANSFER_TIME df))
     (loaded_relation (Transfer_init ex_float ''in'' ''out'' []
        (ex_input_world (ex_ft_with_types [ex_ft_typed_row ''A'' ''B'' (1/2) 0 300]))))
   = Inr [(num 0, num 300)]"
  by (simp add: load_defs ex_defs)

text \<open>
  C5. For every link of the relation a successful load leaves, time_min is at least
  min_transfer_time_min: time_min is min_transfer_time_min where the walk time
  derived from the distance is below it, and that walk time otherwise.
\<close>

theorem walk_time_is_floored:
  assumes "Transfer_init pf input_dir out_dir transfer_list w = (Inr t, w')"
    and "r \<in> set (rows (heap w' (transfers_df t)))"
  shows "cell_ge (r TRANSFERS_COLUMN_TIME_MIN) (r TRANSFERS_COLUMN_MIN_TRANSFER_TIME_MIN)
       \<and> (\<exists>d m. r TRANSFERS_COLUMN_DISTANCE = Flt d \<and> r TRANSFERS_COLUMN_MIN_TRANSFER_TIME = Flt m
              \<and> r TRANSFERS_COLUMN_MIN_TRANSFER_TIME_MIN = Flt (f64_div_pos m 60)
              \<and> r TRANSFERS_COLUMN_TIME_MIN =
                  Flt (if f64_lt (walk_time d) (f64_div_pos m 60) then f64_div_pos m 60 else walk_time d))"
proof -
  from loaded_rows[OF assms] obtain d m q where d: "r TRANSFERS_COLUMN_DISTANCE = Flt d"
    and m: "r TRANSFERS_COLUMN_MIN_TRANSFER_TIME = Flt m" and mn: "m \<noteq> NaN"
    and z: "(if f64_lt (walk_time d) (f64_div_pos m 60) then f64_div_pos m 60 else walk_time d) = Fin q"
    and y: "r TRANSFERS_COLUMN_MIN_TRANSFER_TIME_MIN = Flt (f64_div_pos m 60)"
    and x: "r TRANSFERS_COLUMN_TIME_MIN = Flt (Fin q)"
    by blast
  from mn have yn: "f64_div_pos m 60 \<noteq> NaN" by (simp add: f64_div_pos_NaN)
  from z have "(if f64_lt (walk_time d) (f64_div_pos m 60) then f64_div_pos m 60 else walk_time d) \<noteq> NaN"
    by simp
  from f64_ge_floor[OF yn this] z have "f64_ge (Fin q) (f64_div_pos m 60)" by simp
  with x y have "cell_ge (r TRANSFERS_COLUMN_TIME_MIN) (r TRANSFERS_COLUMN_MIN_TRANSFER_TIME_MIN)"
    by (simp add: cell_ge_def)
  with d m y x z show ?thesis by auto
qed

theorem walk_time_is_floored_witness:
  "\<exists>t w' r. Transfer_init ex_float ''in'' ''out'' [ex_gtfs_transfer ''A'' ''B'' 2 ''300'']
                (ex_input_world (ex_ft [ex_ft_row ''A'' ''B'' (1/10)])) = (Inr t, w')
      \<and> r \<in> set (rows (heap w' (transfers_df t)))
      \<and> r TRANSFERS_COLUMN_TIME_MIN = num 5
      \<and> cell_ge (r TRANSFERS_COLUMN_TIME_MIN) (r TRANSFERS_COLUMN_MIN_TRANSFER_TIME_MIN)"
proof -
  from loaded_column_row[OF ex_floor_load] obtain t w' r where
    T: "Transfer_init ex_float ''in'' ''out'' [ex_gtfs_transfer ''A'' ''B'' 2 ''300'']
                (ex_input_world (ex_ft [ex_ft_row ''A'' ''B'' (1/10)])) = (Inr t, w')"
    and r: "r \<in> set (rows (heap w' (transfers_df t)))" and v: "r TRANSFERS_COLUMN_TIME_MIN = num 5"
    by blast
  from walk_time_is_floored[OF T r] T r v show ?thesis by blast
qed

text \<open>
  C6, as amended. When the supplemental file lacks one of the six required columns
  (and the base feed was read without error), the constructor fails with the
  AssertionError of a bare \<^verbatim>\<open>assert\<close>: it carries no message and does not name the
  column, and it is not the input-format error NetworkInputError.
\<close>

theorem missing_required_column_fails_assertion:
  assumes "base_relation pf transfer_list = Inr b"
    and "csv_files w (os_path_join input_dir INPUT_TRANSFERS_FILE) = Some transfers_ft_df"
    and "c \<in> set required_columns" and "c \<notin> set (columns transfers_ft_df)"
  shows "Transfer_init pf input_dir out_dir transfer_list w = (Inl AssertionError, w)"
proof -
  from assms(3,4) have "\<not> list_all (\<lambda>c. c \<in> set (columns transfers_ft_df)) required_columns"
    by (auto simp: list_all_iff)
  then have "verify_required_columns transfers_ft_df = Inl AssertionError"
    by (simp add: verify_required_columns_def)
  with assms(1,2) show ?thesis
    by (simp add: Transfer_init_def joined_relation_def read_csv_def bindE_def)
qed

theorem missing_required_column_fails_assertion_witness:
  "TRANSFERS_COLUMN_SCHEDULE_PRECEDENCE \<in> set required_columns
   \<and> TRANSFERS_COLUMN_SCHEDULE_PRECEDENCE
       \<notin> set (columns (ex_ft_without TRANSFERS_COLUMN_SCHEDULE_PRECEDENCE [ex_ft_row ''A'' ''B'' (1/2)]))
   \<and> Transfer_init ex_float ''in'' ''out'' []
        (ex_input_world (ex_ft_without TRANSFERS_COLUMN_SCHEDULE_PRECEDENCE [ex_ft_row ''A'' ''B'' (1/2)]))
     = (Inl AssertionError,
        ex_input_world (ex_ft_without TRANSFERS_COLUMN_SCHEDULE_PRECEDENCE [ex_ft_row ''A'' ''B'' (1/2)]))"
proof -
  let ?ft = "ex_ft_without TRANSFERS_COLUMN_SCHEDULE_PRECEDENCE [ex_ft_row ''A'' ''B'' (1/2)]"
  have b: "base_relation ex_float [] = Inr (DataFrame_empty [TRANSFERS_COLUMN_FROM_STOP, TRANSFERS_COLUMN_FROM_STOP_NUM,
                                     TRANSFERS_COLUMN_TO_STOP, TRANSFERS_COLUMN_TO_STOP_NUM,
                                     TRANSFERS_COLUMN_TIME, TRANSFERS_COLUMN_TIME_MIN])"
    by (simp add: base_relation_def)
  have f: "csv_files (ex_input_world ?ft) (os_path_join ''in'' INPUT_TRANSFERS_FILE) = Some ?ft"
    by (simp add: ex_input_world_def os_path_join_def)
  have c: "TRANSFERS_COLUMN_SCHEDULE_PRECEDENCE \<in> set required_columns"
    by (simp add: required_columns_def)
  have n: "TRANSFERS_COLUMN_SCHEDULE_PRECEDENCE \<notin> set (columns ?ft)"
    by (simp add: ex_ft_without_def required_columns_def)
  from missing_required_column_fails_assertion[OF b f c n] c n show ?thesis by simp
qed

text \<open>A supplemental file without the column dist.\<close>

theorem missing_column_error_counterexample:
  "Transfer_init ex_float ''in'' ''out'' [ex_gtfs_transfer ''A'' ''B'' 0 []]
        (ex_input_world (ex_ft_without TRANSFERS_COLUMN_DISTANCE [ex_ft_row ''A'' ''B'' (1/2)]))
   = (Inl AssertionError, ex_input_world (ex_ft_without TRANSFERS_COLUMN_DISTANCE [ex_ft_row ''A'' ''B'' (1/2)]))"
  by (simp add: load_defs ex_defs)

end
